theory Spec2Isabelle
  imports Main "HOL-Library.Sublist"
begin

section \<open>Python values and exceptions\<close>

text \<open>
  The module \<^verbatim>\<open>questions.py\<close> consists of one arithmetic helper, a block of module-level
  code that computes \<^verbatim>\<open>BASE_URL\<close> from an environment variable, a list literal and four
  functions that return an f-string. Python strings are modelled as \<^typ>\<open>string\<close>, read as
  the UTF-8 bytes of the text; Python integers are unbounded and are modelled as \<^typ>\<open>int\<close>.

  \<open>ValueError\<close> and \<open>ZeroDivisionError\<close> are the two exceptions the code can raise. Nothing
  in the module catches an exception, so an \<open>Inl\<close> result always stands for an exception
  that leaves the module. \<open>InvalidInput\<close> is the error class named by the specification; it
  is listed so that statements can tell it apart from the built-in exceptions, and no
  definition below produces it, as no statement of the module raises it.
\<close>

datatype error = ValueError | ZeroDivisionError | InvalidInput

text \<open>The values that reach \<^verbatim>\<open>int(...)\<close>: an integer, or a string.\<close>

datatype py_value = PyInt int | PyStr string

subsection \<open>The built-in \<^verbatim>\<open>int\<close> on a string\<close>

text \<open>
  Two things that \<^verbatim>\<open>int\<close> does with a string are settled by the interpreter and not by
  the module; they are the parameters of the model.
  \<^item> \<open>int_max_str_digits\<close>: the limit on the number of digits of a decimal literal
    (\<^verbatim>\<open>sys.get_int_max_str_digits()\<close>), 4300 unless it has been changed, and 0 for no limit,
    which is also how an interpreter without the limit behaves.
  \<^item> \<open>decimal_to_ascii\<close>: what \<^verbatim>\<open>int\<close> does first to a string that has a non-ASCII
    character. It replaces every white-space character by a space and every decimal
    digit of any script by the ASCII digit of the same value, by the Unicode tables of
    the interpreter. A string of ASCII characters is parsed as it is.
\<close>

record interpreter =
  int_max_str_digits :: nat
  decimal_to_ascii :: "string \<Rightarrow> string"

text \<open>
  A sample interpreter: the default limit, and a conversion that changes nothing, as if
  there were no digits and no spaces outside ASCII. It serves to evaluate the module at
  ASCII counters, where no interpreter applies the conversion.
\<close>

definition default_interpreter :: interpreter where
  "default_interpreter = \<lparr>int_max_str_digits = 4300, decimal_to_ascii = (\<lambda>s. s)\<rparr>"

text \<open>A string is ASCII when no byte of it has the high bit set.\<close>

definition is_ascii :: "string \<Rightarrow> bool" where
  "is_ascii s = (filter digit7 s = [])"

text \<open>
  On ASCII text, \<^verbatim>\<open>int(s)\<close> in base ten skips white space on both sides, reads one
  optional sign and then needs a digit; further digits may be separated by single
  underscores, and the literal may not end in an underscore. A literal of more than 640
  digits that has more digits than a non-zero limit is refused. Every failure is a
  \<open>ValueError\<close>.
\<close>

definition py_isspace :: "char \<Rightarrow> bool" where
  "py_isspace c = (c = CHR '' '' \<or> c = CHR 0x09 \<or> c = CHR 0x0A \<or> c = CHR 0x0B
                   \<or> c = CHR 0x0C \<or> c = CHR 0x0D)"

definition py_strip :: "string \<Rightarrow> string" where
  "py_strip s = rev (dropWhile py_isspace (rev (dropWhile py_isspace s)))"

definition py_digit :: "char \<Rightarrow> nat option" where
  "py_digit c = (let n = (of_char c :: nat) in if 48 \<le> n \<and> n \<le> 57 then Some (n - 48) else None)"

fun py_digits :: "nat \<Rightarrow> string \<Rightarrow> nat option" where
  "py_digits acc [] = Some acc"
| "py_digits acc (c # cs) =
     (if c = CHR ''_'' then
        (case cs of
           [] \<Rightarrow> None
         | d # ds \<Rightarrow> (case py_digit d of
                       None \<Rightarrow> None
                     | Some v \<Rightarrow> py_digits (10 * acc + v) ds))
      else (case py_digit c of
              None \<Rightarrow> None
            | Some v \<Rightarrow> py_digits (10 * acc + v) cs))"

definition py_int_ascii :: "nat \<Rightarrow> string \<Rightarrow> error + int" where
  "py_int_ascii max_str_digits s =
     (let t = py_strip s;
          neg = (case t of c # _ \<Rightarrow> c = CHR ''-'' | [] \<Rightarrow> False);
          body = (case t of c # cs \<Rightarrow> if c = CHR ''-'' \<or> c = CHR ''+'' then cs else t | [] \<Rightarrow> t)
      in case body of
           [] \<Rightarrow> Inl ValueError
         | d # ds \<Rightarrow>
             (case py_digit d of
                None \<Rightarrow> Inl ValueError
              | Some v \<Rightarrow>
                  (case py_digits v ds of
                     None \<Rightarrow> Inl ValueError
                   | Some n \<Rightarrow>
                       (let digits = length (filter (\<lambda>c. c \<noteq> CHR ''_'') body)
                        in if 640 < digits \<and> 0 < max_str_digits \<and> max_str_digits < digits
                           then Inl ValueError
                           else Inr (if neg then - int n else int n)))))"

definition py_int_str :: "interpreter \<Rightarrow> string \<Rightarrow> error + int" where
  "py_int_str ip s =
     py_int_ascii (int_max_str_digits ip) (if is_ascii s then s else decimal_to_ascii ip s)"

fun py_int :: "interpreter \<Rightarrow> py_value \<Rightarrow> error + int" where
  "py_int ip (PyInt n) = Inr n"
| "py_int ip (PyStr s) = py_int_str ip s"

subsection \<open>The format specification \<^verbatim>\<open>03d\<close>\<close>

text \<open>
  \<^verbatim>\<open>f"{n:03d}"\<close> writes the decimal digits of \<open>n\<close>, a minus sign first when \<open>n\<close> is
  negative, and fills with zeros between sign and digits up to a width of three.
\<close>

fun str_nat :: "nat \<Rightarrow> string" where
  "str_nat n = (if n < 10 then [char_of (48 + n)]
                else str_nat (n div 10) @ [char_of (48 + n mod 10)])"

declare str_nat.simps [simp del]

definition format_03d :: "int \<Rightarrow> string" where
  "format_03d n =
     (let sgn = (if n < 0 then ''-'' else '''');
          ds = str_nat (nat \<bar>n\<bar>)
      in sgn @ replicate (3 - (length sgn + length ds)) (CHR ''0'') @ ds)"

section \<open>The cyclic index and the target URL\<close>

definition MAX_REPO :: int where
  "MAX_REPO = 30"

definition SOURCE_REPO :: string where
  "SOURCE_REPO = ''AElfProject/AElf''"

definition REPO_NAME :: string where
  "REPO_NAME = ''aelf''"

text \<open>\<^verbatim>\<open>os.environ.get('GITHUB_RUN_NUMBER', '0')\<close>: the variable's value, or \<open>''0''\<close> when unset.\<close>

definition run_number :: "string option \<Rightarrow> string" where
  "run_number env = (case env of None \<Rightarrow> ''0'' | Some v \<Rightarrow> v)"

text \<open>
  \<^verbatim>\<open>return (int(run_number) - 1) % max_index + 1\<close>. Python evaluates \<^verbatim>\<open>int(...)\<close> first,
  then \<^verbatim>\<open>%\<close>, which raises \<open>ZeroDivisionError\<close> on a zero divisor and otherwise takes the
  sign of the divisor, as \<open>mod\<close> on \<^typ>\<open>int\<close> does. (The default \<^verbatim>\<open>max_index=100\<close> is never
  used: the only call passes \<open>MAX_REPO\<close>.)
\<close>

definition get_cyclic_index :: "interpreter \<Rightarrow> py_value \<Rightarrow> int \<Rightarrow> error + int" where
  "get_cyclic_index ip run_number' max_index =
     (case py_int ip run_number' of
        Inl e \<Rightarrow> Inl e
      | Inr n \<Rightarrow> if max_index = 0 then Inl ZeroDivisionError
                else Inr ((n - 1) mod max_index + 1))"

text \<open>
  The module-level \<^verbatim>\<open>if run_number == "0": ... else: ...\<close>, as a function of the run-counter
  string: the value bound to \<^verbatim>\<open>BASE_URL\<close>, or the exception that aborts the module.
  The first argument is the interpreter that runs the module.
\<close>

definition BASE_URL :: "interpreter \<Rightarrow> string \<Rightarrow> error + string" where
  "BASE_URL ip rn =
     (if rn = ''0'' then Inr (''https://deepwiki.com/'' @ SOURCE_REPO)
      else (case get_cyclic_index ip (PyStr rn) MAX_REPO of
              Inl e \<Rightarrow> Inl e
            | Inr run_index \<Rightarrow>
                (let repo_number = format_03d run_index
                 in Inr (''https://deepwiki.com/grass-dev-pa/'' @ REPO_NAME @ ''-'' @ repo_number))))"

text \<open>The specification's cyclic index, in its words: \<open>((run - 1) mod max) + 1\<close>.\<close>

definition cyclicIndex :: "int \<Rightarrow> int \<Rightarrow> int" where
  "cyclicIndex run m = ((run - 1) mod m) + 1"

section \<open>Rendering a list of strings\<close>

text \<open>
  An f-string field without a format specification is rendered with \<^verbatim>\<open>str\<close>, which for a
  list is its \<^verbatim>\<open>repr\<close>: the \<^verbatim>\<open>repr\<close> of every element, separated by a comma and a space,
  between square brackets. The \<^verbatim>\<open>repr\<close> of a string is quoted with single quotes, or with
  double quotes when the string has a single quote and no double quote; the quote
  character and the backslash are escaped with a backslash, tab, line feed and carriage
  return are written \<^verbatim>\<open>\t\<close>, \<^verbatim>\<open>\n\<close>, \<^verbatim>\<open>\r\<close>, and the other control characters as \<^verbatim>\<open>\xNN\<close>.
  Bytes above 127, which belong to non-ASCII characters, are copied, as Python does for
  the printable ones.
\<close>

definition hex_digit :: "nat \<Rightarrow> char" where
  "hex_digit n = ''0123456789abcdef'' ! (n mod 16)"

definition py_repr_char :: "char \<Rightarrow> char \<Rightarrow> string" where
  "py_repr_char quote c =
     (if c = quote \<or> c = CHR 0x5C then [CHR 0x5C, c]
      else if c = CHR 0x09 then [CHR 0x5C, CHR ''t'']
      else if c = CHR 0x0A then [CHR 0x5C, CHR ''n'']
      else if c = CHR 0x0D then [CHR 0x5C, CHR ''r'']
      else if (of_char c :: nat) < 32 \<or> c = CHR 0x7F
        then [CHR 0x5C, CHR ''x'', hex_digit (of_char c div 16), hex_digit (of_char c)]
      else [c])"

definition py_repr_str :: "string \<Rightarrow> string" where
  "py_repr_str s =
     (let quote = (if CHR 0x27 \<in> set s \<and> CHR 0x22 \<notin> set s then CHR 0x22 else CHR 0x27)
      in [quote] @ concat (map (py_repr_char quote) s) @ [quote])"

fun py_join :: "string \<Rightarrow> string list \<Rightarrow> string" where
  "py_join sep [] = []"
| "py_join sep [x] = x"
| "py_join sep (x # y # ys) = x @ sep @ py_join sep (y # ys)"

definition py_str_list :: "string list \<Rightarrow> string" where
  "py_str_list xs = ''['' @ py_join '', '' (map py_repr_str xs) @ '']''"

section \<open>The list of files in scope\<close>

definition scope_files :: "string list" where
  \<open>scope_files = [
    ''contract/AElf.Contracts.Association/Association.cs'',
    ''contract/AElf.Contracts.Association/AssociationConstants.cs'',
    ''contract/AElf.Contracts.Association/AssociationContract_ACS1_TransactionFeeProvider.cs'',
    ''contract/AElf.Contracts.Association/AssociationReferenceState.cs'',
    ''contract/AElf.Contracts.Association/AssociationState.cs'',
    ''contract/AElf.Contracts.Association/Association_Extensions.cs'',
    ''contract/AElf.Contracts.Association/Association_Helper.cs'',
    ''contract/AElf.Contracts.Association/OrganizationMemberList.cs'',
    ''contract/AElf.Contracts.Configuration/ConfigurationContract.cs'',
    ''contract/AElf.Contracts.Configuration/ConfigurationContract_ACS1_TransactionFeeProvider.cs'',
    ''contract/AElf.Contracts.Configuration/ConfigurationContract_Helper.cs'',
    ''contract/AElf.Contracts.Configuration/ConfigurationReferenceState.cs'',
    ''contract/AElf.Contracts.Configuration/ConfigurationState.cs'',
    ''contract/AElf.Contracts.Consensus.AEDPoS/AEDPoSContract.cs'',
    ''contract/AElf.Contracts.Consensus.AEDPoS/AEDPoSContractConstants.cs'',
    ''contract/AElf.Contracts.Consensus.AEDPoS/AEDPoSContract_ACS11_CrossChainInformationProvider.cs'',
    ''contract/AElf.Contracts.Consensus.AEDPoS/AEDPoSContract_ACS1_TransactionFeeProvider.cs'',
    ''contract/AElf.Contracts.Consensus.AEDPoS/AEDPoSContract_ACS4_ConsensusInformationProvider.cs'',
    ''contract/AElf.Contracts.Consensus.AEDPoS/AEDPoSContract_CacheFileds.cs'',
    ''contract/AElf.Contracts.Consensus.AEDPoS/AEDPoSContract_GetConsensusBlockExtraData.cs'',
    ''contract/AElf.Contracts.Consensus.AEDPoS/AEDPoSContract_GetConsensusCommand.cs'',
    ''contract/AElf.Contracts.Consensus.AEDPoS/AEDPoSContract_GetMaximumBlocksCount.cs'',
    ''contract/AElf.Contracts.Consensus.AEDPoS/AEDPoSContract_HelpMethods.cs'',
    ''contract/AElf.Contracts.Consensus.AEDPoS/AEDPoSContract_LIB.cs'',
    ''contract/AElf.Contracts.Consensus.AEDPoS/AEDPoSContract_MaximumMinersCount.cs'',
    ''contract/AElf.Contracts.Consensus.AEDPoS/AEDPoSContract_NextTerm.cs'',
    ''contract/AElf.Contracts.Consensus.AEDPoS/AEDPoSContract_ProcessConsensusInformation.cs'',
    ''contract/AElf.Contracts.Consensus.AEDPoS/AEDPoSContract_SecretSharing.cs'',
    ''contract/AElf.Contracts.Consensus.AEDPoS/AEDPoSContract_SideChainDividendsPool.cs'',
    ''contract/AElf.Contracts.Consensus.AEDPoS/AEDPoSContract_Validation.cs'',
    ''contract/AElf.Contracts.Consensus.AEDPoS/AEDPoSContract_ValidationService.cs'',
    ''contract/AElf.Contracts.Consensus.AEDPoS/AEDPoSContract_ViewMethods.cs'',
    ''contract/AElf.Contracts.Consensus.AEDPoS/AElfConsensusContractState.cs'',
    ''contract/AElf.Contracts.Consensus.AEDPoS/ConsensusCommandGeneration/ConsensusBehaviourProviderBase.cs'',
    ''contract/AElf.Contracts.Consensus.AEDPoS/ConsensusCommandGeneration/ConsensusCommandProvider.cs'',
    ''contract/AElf.Contracts.Consensus.AEDPoS/ConsensusCommandGeneration/MainChainConsensusBehaviourProvider.cs'',
    ''contract/AElf.Contracts.Consensus.AEDPoS/ConsensusCommandGeneration/MiningTimeArrangingService.cs'',
    ''contract/AElf.Contracts.Consensus.AEDPoS/ConsensusCommandGeneration/SideChainConsensusBehaviourProvider.cs'',
    ''contract/AElf.Contracts.Consensus.AEDPoS/ConsensusCommandGeneration/Strategies/CommandStrategyBase.cs'',
    ''contract/AElf.Contracts.Consensus.AEDPoS/ConsensusCommandGeneration/Strategies/FirstRoundCommandStrategy.cs'',
    ''contract/AElf.Contracts.Consensus.AEDPoS/ConsensusCommandGeneration/Strategies/ICommandStrategy.cs'',
    ''contract/AElf.Contracts.Consensus.AEDPoS/ConsensusCommandGeneration/Strategies/NormalBlockCommandStrategy.cs'',
    ''contract/AElf.Contracts.Consensus.AEDPoS/ConsensusCommandGeneration/Strategies/TerminateRoundCommandStrategy.cs'',
    ''contract/AElf.Contracts.Consensus.AEDPoS/ConsensusCommandGeneration/Strategies/TinyBlockCommandStrategy.cs'',
    ''contract/AElf.Contracts.Consensus.AEDPoS/ConsensusHeaderInfoValidationProviders/ConsensusValidationContext.cs'',
    ''contract/AElf.Contracts.Consensus.AEDPoS/ConsensusHeaderInfoValidationProviders/ContinuousBlocksValidationProvider.cs'',
    ''contract/AElf.Contracts.Consensus.AEDPoS/ConsensusHeaderInfoValidationProviders/IHeaderInformationValidationProvider.cs'',
    ''contract/AElf.Contracts.Consensus.AEDPoS/ConsensusHeaderInfoValidationProviders/LibInformationValidationProvider.cs'',
    ''contract/AElf.Contracts.Consensus.AEDPoS/ConsensusHeaderInfoValidationProviders/MiningPermissionValidationProvider.cs'',
    ''contract/AElf.Contracts.Consensus.AEDPoS/ConsensusHeaderInfoValidationProviders/NextRoundMiningOrderValidationProvider.cs'',
    ''contract/AElf.Contracts.Consensus.AEDPoS/ConsensusHeaderInfoValidationProviders/RoundTerminateValidationProvider.cs'',
    ''contract/AElf.Contracts.Consensus.AEDPoS/ConsensusHeaderInfoValidationProviders/TimeSlotValidationProvider.cs'',
    ''contract/AElf.Contracts.Consensus.AEDPoS/ConsensusHeaderInfoValidationProviders/UpdateValueValidationProvider.cs'',
    ''contract/AElf.Contracts.Consensus.AEDPoS/ContractsReferences.cs'',
    ''contract/AElf.Contracts.Consensus.AEDPoS/Types/MinerList.cs'',
    ''contract/AElf.Contracts.Consensus.AEDPoS/Types/NextRoundInput.cs'',
    ''contract/AElf.Contracts.Consensus.AEDPoS/Types/NextTermInput.cs'',
    ''contract/AElf.Contracts.Consensus.AEDPoS/Types/Round.cs'',
    ''contract/AElf.Contracts.Consensus.AEDPoS/Types/Round_ApplyNormalConsensusData.cs'',
    ''contract/AElf.Contracts.Consensus.AEDPoS/Types/Round_ArrangeAbnormalMiningTime.cs'',
    ''contract/AElf.Contracts.Consensus.AEDPoS/Types/Round_ExtractInformationToUpdateConsensus.cs'',
    ''contract/AElf.Contracts.Consensus.AEDPoS/Types/Round_Generation.cs'',
    ''contract/AElf.Contracts.Consensus.AEDPoS/Types/Round_GetLighterRound.cs'',
    ''contract/AElf.Contracts.Consensus.AEDPoS/Types/Round_GetLogs.cs'',
    ''contract/AElf.Contracts.Consensus.AEDPoS/Types/Round_ImpliedIrreversibleBlockHeight.cs'',
    ''contract/AElf.Contracts.Consensus.AEDPoS/Types/Round_Recover.cs'',
    ''contract/AElf.Contracts.Consensus.AEDPoS/Types/Round_Simplify.cs'',
    ''contract/AElf.Contracts.CrossChain/CrossChainContract.cs'',
    ''contract/AElf.Contracts.CrossChain/CrossChainContractState.cs'',
    ''contract/AElf.Contracts.CrossChain/CrossChainContract_ACS1_TransactionFeeProvider.cs'',
    ''contract/AElf.Contracts.CrossChain/CrossChainContract_Constants.cs'',
    ''contract/AElf.Contracts.CrossChain/CrossChainContract_Helper.cs'',
    ''contract/AElf.Contracts.CrossChain/CrossChainContract_View.cs'',
    ''contract/AElf.Contracts.CrossChain/CrossChainReferenceState.cs'',
    ''contract/AElf.Contracts.Economic/EconomicContract.cs'',
    ''contract/AElf.Contracts.Economic/EconomicContractConstants.cs'',
    ''contract/AElf.Contracts.Economic/EconomicContractState.cs'',
    ''contract/AElf.Contracts.Economic/EconomicContract_ACS1_TransactionFeeProvider.cs'',
    ''contract/AElf.Contracts.Election/ElectionContractConstants.cs'',
    ''contract/AElf.Contracts.Election/ElectionContractReferenceState.cs'',
    ''contract/AElf.Contracts.Election/ElectionContractState.cs'',
    ''contract/AElf.Contracts.Election/ElectionContract_ACS1_TransactionFeeProvider.cs'',
    ''contract/AElf.Contracts.Election/ElectionContract_Candidate.cs'',
    ''contract/AElf.Contracts.Election/ElectionContract_Elector.cs'',
    ''contract/AElf.Contracts.Election/ElectionContract_Maintainence.cs'',
    ''contract/AElf.Contracts.Election/TimestampHelper.cs'',
    ''contract/AElf.Contracts.Election/ViewMethods.cs'',
    ''contract/AElf.Contracts.Genesis/BasicContractZero.cs'',
    ''contract/AElf.Contracts.Genesis/BasicContractZeroContract_ACS1_TransactionFeeProvider.cs'',
    ''contract/AElf.Contracts.Genesis/BasicContractZeroReferenceState.cs'',
    ''contract/AElf.Contracts.Genesis/BasicContractZeroState.cs'',
    ''contract/AElf.Contracts.Genesis/BasicContractZero_Constants.cs'',
    ''contract/AElf.Contracts.Genesis/BasicContractZero_Helper.cs'',
    ''contract/AElf.Contracts.MultiToken/TokenContractConstants.cs'',
    ''contract/AElf.Contracts.MultiToken/TokenContractReferenceState.cs'',
    ''contract/AElf.Contracts.MultiToken/TokenContractState.cs'',
    ''contract/AElf.Contracts.MultiToken/TokenContractState_ChargeFee.cs'',
    ''contract/AElf.Contracts.MultiToken/TokenContract_ACS1_MethodFeeProvider.cs'',
    ''contract/AElf.Contracts.MultiToken/TokenContract_ACS2_StatePathsProvider.cs'',
    ''contract/AElf.Contracts.MultiToken/TokenContract_Actions.cs'',
    ''contract/AElf.Contracts.MultiToken/TokenContract_CacheFileds.cs'',
    ''contract/AElf.Contracts.MultiToken/TokenContract_Delegation.cs'',
    ''contract/AElf.Contracts.MultiToken/TokenContract_Fee_Calculate_Coefficient.cs'',
    ''contract/AElf.Contracts.MultiToken/TokenContract_Fees.cs'',
    ''contract/AElf.Contracts.MultiToken/TokenContract_Helper.cs'',
    ''contract/AElf.Contracts.MultiToken/TokenContract_Method_Authorization.cs'',
    ''contract/AElf.Contracts.MultiToken/TokenContract_NFTHelper.cs'',
    ''contract/AElf.Contracts.MultiToken/TokenContract_NFT_Actions.cs'',
    ''contract/AElf.Contracts.MultiToken/TokenContract_Views.cs'',
    ''contract/AElf.Contracts.NFT/NFTContractConstants.cs'',
    ''contract/AElf.Contracts.NFT/NFTContractReferenceState.cs'',
    ''contract/AElf.Contracts.NFT/NFTContractState.cs'',
    ''contract/AElf.Contracts.NFT/NFTContract_ACS1.cs'',
    ''contract/AElf.Contracts.NFT/NFTContract_Create.cs'',
    ''contract/AElf.Contracts.NFT/NFTContract_Helpers.cs'',
    ''contract/AElf.Contracts.NFT/NFTContract_UseChain.cs'',
    ''contract/AElf.Contracts.NFT/NFTContract_View.cs'',
    ''contract/AElf.Contracts.Parliament/Parliament.cs'',
    ''contract/AElf.Contracts.Parliament/ParliamentConstants.cs'',
    ''contract/AElf.Contracts.Parliament/ParliamentContract_ACS1_TransactionFeeProvider.cs'',
    ''contract/AElf.Contracts.Parliament/ParliamentState.cs'',
    ''contract/AElf.Contracts.Parliament/Parliament_Constants.cs'',
    ''contract/AElf.Contracts.Parliament/Parliament_Helper.cs'',
    ''contract/AElf.Contracts.Profit/ContractsReferences.cs'',
    ''contract/AElf.Contracts.Profit/Models/RemovedDetails.cs'',
    ''contract/AElf.Contracts.Profit/ProfitContract.cs'',
    ''contract/AElf.Contracts.Profit/ProfitContractConstants.cs'',
    ''contract/AElf.Contracts.Profit/ProfitContractState.cs'',
    ''contract/AElf.Contracts.Profit/ProfitContract_ACS1_TransactionFeeProvider.cs'',
    ''contract/AElf.Contracts.Profit/ViewMethods.cs'',
    ''contract/AElf.Contracts.Referendum/ProposerWhiteListExtensions.cs'',
    ''contract/AElf.Contracts.Referendum/Referendum.cs'',
    ''contract/AElf.Contracts.Referendum/ReferendumConstants.cs'',
    ''contract/AElf.Contracts.Referendum/ReferendumContract_ACS1_TransactionFeeProvider.cs'',
    ''contract/AElf.Contracts.Referendum/ReferendumState.cs'',
    ''contract/AElf.Contracts.Referendum/Referendum_Helper.cs'',
    ''contract/AElf.Contracts.TokenConverter/BancorHelper.cs'',
    ''contract/AElf.Contracts.TokenConverter/InvalidValueException.cs'',
    ''contract/AElf.Contracts.TokenConverter/TokenConvert_Views.cs'',
    ''contract/AElf.Contracts.TokenConverter/TokenConverterContract.cs'',
    ''contract/AElf.Contracts.TokenConverter/TokenConverterContractState.cs'',
    ''contract/AElf.Contracts.TokenConverter/TokenConverterContract_ACS1_TransactionFeeProvider.cs'',
    ''contract/AElf.Contracts.TokenHolder/ContractsReferences.cs'',
    ''contract/AElf.Contracts.TokenHolder/TokenHolderContract.cs'',
    ''contract/AElf.Contracts.TokenHolder/TokenHolderContractState.cs'',
    ''contract/AElf.Contracts.TokenHolder/TokenHolderContract_ACS1_TransactionFeeProvider.cs'',
    ''contract/AElf.Contracts.Treasury/ContractsReferences.cs'',
    ''contract/AElf.Contracts.Treasury/TreasuryContract.cs'',
    ''contract/AElf.Contracts.Treasury/TreasuryContractConstants.cs'',
    ''contract/AElf.Contracts.Treasury/TreasuryContractState.cs'',
    ''contract/AElf.Contracts.Treasury/TreasuryContract_ACS1_TransactionFeeProvider.cs'',
    ''contract/AElf.Contracts.Vote/ContractsReferences.cs'',
    ''contract/AElf.Contracts.Vote/ViewMethods.cs'',
    ''contract/AElf.Contracts.Vote/VoteContract.cs'',
    ''contract/AElf.Contracts.Vote/VoteContractConstants.cs'',
    ''contract/AElf.Contracts.Vote/VoteContractState.cs'',
    ''contract/AElf.Contracts.Vote/VoteContract_ACS1_TransactionFeeProvider.cs'',
    ''contract/AElf.Contracts.Vote/VoteExtensions.cs'',
    ''contract/AElf.Contracts.Association/Association.cs'',
    ''contract/AElf.Contracts.Association/AssociationConstants.cs'',
    ''contract/AElf.Contracts.Association/AssociationContract_ACS1_TransactionFeeProvider.cs'',
    ''contract/AElf.Contracts.Association/AssociationReferenceState.cs'',
    ''contract/AElf.Contracts.Association/AssociationState.cs'',
    ''contract/AElf.Contracts.Association/Association_Extensions.cs'',
    ''contract/AElf.Contracts.Association/Association_Helper.cs'',
    ''contract/AElf.Contracts.Association/OrganizationMemberList.cs'',
    ''contract/AElf.Contracts.Configuration/ConfigurationContract.cs'',
    ''contract/AElf.Contracts.Configuration/ConfigurationContract_ACS1_TransactionFeeProvider.cs'',
    ''contract/AElf.Contracts.Configuration/ConfigurationContract_Helper.cs'',
    ''contract/AElf.Contracts.Configuration/ConfigurationReferenceState.cs'',
    ''contract/AElf.Contracts.Configuration/ConfigurationState.cs'',
    ''contract/AElf.Contracts.Consensus.AEDPoS/AEDPoSContract.cs'',
    ''contract/AElf.Contracts.Consensus.AEDPoS/AEDPoSContractConstants.cs'',
    ''contract/AElf.Contracts.Consensus.AEDPoS/AEDPoSContract_ACS11_CrossChainInformationProvider.cs'',
    ''contract/AElf.Contracts.Consensus.AEDPoS/AEDPoSContract_ACS1_TransactionFeeProvider.cs'',
    ''contract/AElf.Contracts.Consensus.AEDPoS/AEDPoSContract_ACS4_ConsensusInformationProvider.cs'',
    ''contract/AElf.Contracts.Consensus.AEDPoS/AEDPoSContract_CacheFileds.cs'',
    ''contract/AElf.Contracts.Consensus.AEDPoS/AEDPoSContract_GetConsensusBlockExtraData.cs'',
    ''contract/AElf.Contracts.Consensus.AEDPoS/AEDPoSContract_GetConsensusCommand.cs'',
    ''contract/AElf.Contracts.Consensus.AEDPoS/AEDPoSContract_GetMaximumBlocksCount.cs'',
    ''contract/AElf.Contracts.Consensus.AEDPoS/AEDPoSContract_HelpMethods.cs'',
    ''contract/AElf.Contracts.Consensus.AEDPoS/AEDPoSContract_LIB.cs'',
    ''contract/AElf.Contracts.Consensus.AEDPoS/AEDPoSContract_MaximumMinersCount.cs'',
    ''contract/AElf.Contracts.Consensus.AEDPoS/AEDPoSContract_NextTerm.cs'',
    ''contract/AElf.Contracts.Consensus.AEDPoS/AEDPoSContract_ProcessConsensusInformation.cs'',
    ''contract/AElf.Contracts.Consensus.AEDPoS/AEDPoSContract_SecretSharing.cs'',
    ''contract/AElf.Contracts.Consensus.AEDPoS/AEDPoSContract_SideChainDividendsPool.cs'',
    ''contract/AElf.Contracts.Consensus.AEDPoS/AEDPoSContract_Validation.cs'',
    ''contract/AElf.Contracts.Consensus.AEDPoS/AEDPoSContract_ValidationService.cs'',
    ''contract/AElf.Contracts.Consensus.AEDPoS/AEDPoSContract_ViewMethods.cs'',
    ''contract/AElf.Contracts.Consensus.AEDPoS/AElfConsensusContractState.cs'',
    ''contract/AElf.Contracts.Consensus.AEDPoS/ConsensusCommandGeneration/ConsensusBehaviourProviderBase.cs'',
    ''contract/AElf.Contracts.Consensus.AEDPoS/ConsensusCommandGeneration/ConsensusCommandProvider.cs'',
    ''contract/AElf.Contracts.Consensus.AEDPoS/ConsensusCommandGeneration/MainChainConsensusBehaviourProvider.cs'',
    ''contract/AElf.Contracts.Consensus.AEDPoS/ConsensusCommandGeneration/MiningTimeArrangingService.cs'',
    ''contract/AElf.Contracts.Consensus.AEDPoS/ConsensusCommandGeneration/SideChainConsensusBehaviourProvider.cs'',
    ''contract/AElf.Contracts.Consensus.AEDPoS/ConsensusCommandGeneration/Strategies/CommandStrategyBase.cs'',
    ''contract/AElf.Contracts.Consensus.AEDPoS/ConsensusCommandGeneration/Strategies/FirstRoundCommandStrategy.cs'',
    ''contract/AElf.Contracts.Consensus.AEDPoS/ConsensusCommandGeneration/Strategies/ICommandStrategy.cs'',
    ''contract/AElf.Contracts.Consensus.AEDPoS/ConsensusCommandGeneration/Strategies/NormalBlockCommandStrategy.cs'',
    ''contract/AElf.Contracts.Consensus.AEDPoS/ConsensusCommandGeneration/Strategies/TerminateRoundCommandStrategy.cs'',
    ''contract/AElf.Contracts.Consensus.AEDPoS/ConsensusCommandGeneration/Strategies/TinyBlockCommandStrategy.cs'',
    ''contract/AElf.Contracts.Consensus.AEDPoS/ConsensusHeaderInfoValidationProviders/ConsensusValidationContext.cs'',
    ''contract/AElf.Contracts.Consensus.AEDPoS/ConsensusHeaderInfoValidationProviders/ContinuousBlocksValidationProvider.cs'',
    ''contract/AElf.Contracts.Consensus.AEDPoS/ConsensusHeaderInfoValidationProviders/IHeaderInformationValidationProvider.cs'',
    ''contract/AElf.Contracts.Consensus.AEDPoS/ConsensusHeaderInfoValidationProviders/LibInformationValidationProvider.cs'',
    ''contract/AElf.Contracts.Consensus.AEDPoS/ConsensusHeaderInfoValidationProviders/MiningPermissionValidationProvider.cs'',
    ''contract/AElf.Contracts.Consensus.AEDPoS/ConsensusHeaderInfoValidationProviders/NextRoundMiningOrderValidationProvider.cs'',
    ''contract/AElf.Contracts.Consensus.AEDPoS/ConsensusHeaderInfoValidationProviders/RoundTerminateValidationProvider.cs'',
    ''contract/AElf.Contracts.Consensus.AEDPoS/ConsensusHeaderInfoValidationProviders/TimeSlotValidationProvider.cs'',
    ''contract/AElf.Contracts.Consensus.AEDPoS/ConsensusHeaderInfoValidationProviders/UpdateValueValidationProvider.cs'',
    ''contract/AElf.Contracts.Consensus.AEDPoS/ContractsReferences.cs'',
    ''contract/AElf.Contracts.Consensus.AEDPoS/Types/MinerList.cs'',
    ''contract/AElf.Contracts.Consensus.AEDPoS/Types/NextRoundInput.cs'',
    ''contract/AElf.Contracts.Consensus.AEDPoS/Types/NextTermInput.cs'',
    ''contract/AElf.Contracts.Consensus.AEDPoS/Types/Round.cs'',
    ''contract/AElf.Contracts.Consensus.AEDPoS/Types/Round_ApplyNormalConsensusData.cs'',
    ''contract/AElf.Contracts.Consensus.AEDPoS/Types/Round_ArrangeAbnormalMiningTime.cs'',
    ''contract/AElf.Contracts.Consensus.AEDPoS/Types/Round_ExtractInformationToUpdateConsensus.cs'',
    ''contract/AElf.Contracts.Consensus.AEDPoS/Types/Round_Generation.cs'',
    ''contract/AElf.Contracts.Consensus.AEDPoS/Types/Round_GetLighterRound.cs'',
    ''contract/AElf.Contracts.Consensus.AEDPoS/Types/Round_GetLogs.cs'',
    ''contract/AElf.Contracts.Consensus.AEDPoS/Types/Round_ImpliedIrreversibleBlockHeight.cs'',
    ''contract/AElf.Contracts.Consensus.AEDPoS/Types/Round_Recover.cs'',
    ''contract/AElf.Contracts.Consensus.AEDPoS/Types/Round_Simplify.cs'',
    ''contract/AElf.Contracts.CrossChain/CrossChainContract.cs'',
    ''contract/AElf.Contracts.CrossChain/CrossChainContractState.cs'',
    ''contract/AElf.Contracts.CrossChain/CrossChainContract_ACS1_TransactionFeeProvider.cs'',
    ''contract/AElf.Contracts.CrossChain/CrossChainContract_Constants.cs'',
    ''contract/AElf.Contracts.CrossChain/CrossChainContract_Helper.cs'',
    ''contract/AElf.Contracts.CrossChain/CrossChainContract_View.cs'',
    ''contract/AElf.Contracts.CrossChain/CrossChainReferenceState.cs'',
    ''contract/AElf.Contracts.Economic/EconomicContract.cs'',
    ''contract/AElf.Contracts.Economic/EconomicContractConstants.cs'',
    ''contract/AElf.Contracts.Economic/EconomicContractState.cs'',
    ''contract/AElf.Contracts.Economic/EconomicContract_ACS1_TransactionFeeProvider.cs'',
    ''contract/AElf.Contracts.Election/ElectionContractConstants.cs'',
    ''contract/AElf.Contracts.Election/ElectionContractReferenceState.cs'',
    ''contract/AElf.Contracts.Election/ElectionContractState.cs'',
    ''contract/AElf.Contracts.Election/ElectionContract_ACS1_TransactionFeeProvider.cs'',
    ''contract/AElf.Contracts.Election/ElectionContract_Candidate.cs'',
    ''contract/AElf.Contracts.Election/ElectionContract_Elector.cs'',
    ''contract/AElf.Contracts.Election/ElectionContract_Maintainence.cs'',
    ''contract/AElf.Contracts.Election/TimestampHelper.cs'',
    ''contract/AElf.Contracts.Election/ViewMethods.cs'',
    ''contract/AElf.Contracts.Genesis/BasicContractZero.cs'',
    ''contract/AElf.Contracts.Genesis/BasicContractZeroContract_ACS1_TransactionFeeProvider.cs'',
    ''contract/AElf.Contracts.Genesis/BasicContractZeroReferenceState.cs'',
    ''contract/AElf.Contracts.Genesis/BasicContractZeroState.cs'',
    ''contract/AElf.Contracts.Genesis/BasicContractZero_Constants.cs'',
    ''contract/AElf.Contracts.Genesis/BasicContractZero_Helper.cs'',
    ''contract/AElf.Contracts.MultiToken/TokenContractConstants.cs'',
    ''contract/AElf.Contracts.MultiToken/TokenContractReferenceState.cs'',
    ''contract/AElf.Contracts.MultiToken/TokenContractState.cs'',
    ''contract/AElf.Contracts.MultiToken/TokenContractState_ChargeFee.cs'',
    ''contract/AElf.Contracts.MultiToken/TokenContract_ACS1_MethodFeeProvider.cs'',
    ''contract/AElf.Contracts.MultiToken/TokenContract_ACS2_StatePathsProvider.cs'',
    ''contract/AElf.Contracts.MultiToken/TokenContract_Actions.cs'',
    ''contract/AElf.Contracts.MultiToken/TokenContract_CacheFileds.cs'',
    ''contract/AElf.Contracts.MultiToken/TokenContract_Delegation.cs'',
    ''contract/AElf.Contracts.MultiToken/TokenContract_Fee_Calculate_Coefficient.cs'',
    ''contract/AElf.Contracts.MultiToken/TokenContract_Fees.cs'',
    ''contract/AElf.Contracts.MultiToken/TokenContract_Helper.cs'',
    ''contract/AElf.Contracts.MultiToken/TokenContract_Method_Authorization.cs'',
    ''contract/AElf.Contracts.MultiToken/TokenContract_NFTHelper.cs'',
    ''contract/AElf.Contracts.MultiToken/TokenContract_NFT_Actions.cs'',
    ''contract/AElf.Contracts.MultiToken/TokenContract_Views.cs'',
    ''contract/AElf.Contracts.NFT/NFTContractConstants.cs'',
    ''contract/AElf.Contracts.NFT/NFTContractReferenceState.cs'',
    ''contract/AElf.Contracts.NFT/NFTContractState.cs'',
    ''contract/AElf.Contracts.NFT/NFTContract_ACS1.cs'',
    ''contract/AElf.Contracts.NFT/NFTContract_Create.cs'',
    ''contract/AElf.Contracts.NFT/NFTContract_Helpers.cs'',
    ''contract/AElf.Contracts.NFT/NFTContract_UseChain.cs'',
    ''contract/AElf.Contracts.NFT/NFTContract_View.cs'',
    ''contract/AElf.Contracts.Parliament/Parliament.cs'',
    ''contract/AElf.Contracts.Parliament/ParliamentConstants.cs'',
    ''contract/AElf.Contracts.Parliament/ParliamentContract_ACS1_TransactionFeeProvider.cs'',
    ''contract/AElf.Contracts.Parliament/ParliamentState.cs'',
    ''contract/AElf.Contracts.Parliament/Parliament_Constants.cs'',
    ''contract/AElf.Contracts.Parliament/Parliament_Helper.cs'',
    ''contract/AElf.Contracts.Profit/ContractsReferences.cs'',
    ''contract/AElf.Contracts.Profit/Models/RemovedDetails.cs'',
    ''contract/AElf.Contracts.Profit/ProfitContract.cs'',
    ''contract/AElf.Contracts.Profit/ProfitContractConstants.cs'',
    ''contract/AElf.Contracts.Profit/ProfitContractState.cs'',
    ''contract/AElf.Contracts.Profit/ProfitContract_ACS1_TransactionFeeProvider.cs'',
    ''contract/AElf.Contracts.Profit/ViewMethods.cs'',
    ''contract/AElf.Contracts.Referendum/ProposerWhiteListExtensions.cs'',
    ''contract/AElf.Contracts.Referendum/Referendum.cs'',
    ''contract/AElf.Contracts.Referendum/ReferendumConstants.cs'',
    ''contract/AElf.Contracts.Referendum/ReferendumContract_ACS1_TransactionFeeProvider.cs'',
    ''contract/AElf.Contracts.Referendum/ReferendumState.cs'',
    ''contract/AElf.Contracts.Referendum/Referendum_Helper.cs'',
    ''contract/AElf.Contracts.TokenConverter/BancorHelper.cs'',
    ''contract/AElf.Contracts.TokenConverter/InvalidValueException.cs'',
    ''contract/AElf.Contracts.TokenConverter/TokenConvert_Views.cs'',
    ''contract/AElf.Contracts.TokenConverter/TokenConverterContract.cs'',
    ''contract/AElf.Contracts.TokenConverter/TokenConverterContractState.cs'',
    ''contract/AElf.Contracts.TokenConverter/TokenConverterContract_ACS1_TransactionFeeProvider.cs'',
    ''contract/AElf.Contracts.TokenHolder/ContractsReferences.cs'',
    ''contract/AElf.Contracts.TokenHolder/TokenHolderContract.cs'',
    ''contract/AElf.Contracts.TokenHolder/TokenHolderContractState.cs'',
    ''contract/AElf.Contracts.TokenHolder/TokenHolderContract_ACS1_TransactionFeeProvider.cs'',
    ''contract/AElf.Contracts.Treasury/ContractsReferences.cs'',
    ''contract/AElf.Contracts.Treasury/TreasuryContract.cs'',
    ''contract/AElf.Contracts.Treasury/TreasuryContractConstants.cs'',
    ''contract/AElf.Contracts.Treasury/TreasuryContractState.cs'',
    ''contract/AElf.Contracts.Treasury/TreasuryContract_ACS1_TransactionFeeProvider.cs'',
    ''contract/AElf.Contracts.Vote/ContractsReferences.cs'',
    ''contract/AElf.Contracts.Vote/ViewMethods.cs'',
    ''contract/AElf.Contracts.Vote/VoteContract.cs'',
    ''contract/AElf.Contracts.Vote/VoteContractConstants.cs'',
    ''contract/AElf.Contracts.Vote/VoteContractState.cs'',
    ''contract/AElf.Contracts.Vote/VoteContract_ACS1_TransactionFeeProvider.cs'',
    ''contract/AElf.Contracts.Vote/VoteExtensions.cs''
  ]\<close>

section \<open>The module's globals\<close>

text \<open>
  Importing the module runs its top-level statements in order: it reads the environment
  variable, computes \<^verbatim>\<open>BASE_URL\<close> (which may raise, and then the import fails and none of
  the functions below exists), and binds \<^verbatim>\<open>scope_files\<close>. The arguments are the
  interpreter and the value of \<^verbatim>\<open>GITHUB_RUN_NUMBER\<close>, or \<open>None\<close> when it is unset.
\<close>

record module_globals =
  g_run_number :: string
  g_BASE_URL :: string
  g_scope_files :: "string list"

definition load_module :: "interpreter \<Rightarrow> string option \<Rightarrow> error + module_globals" where
  "load_module ip env =
     (let rn = run_number env
      in case BASE_URL ip rn of
           Inl e \<Rightarrow> Inl e
         | Inr url \<Rightarrow> Inr \<lparr>g_run_number = rn, g_BASE_URL = url, g_scope_files = scope_files\<rparr>)"

section \<open>The four prompt builders\<close>

text \<open>
  Each builder returns one f-string. The constant pieces of the four literals are the
  definitions \<open>\<dots>_text0\<close>, \<open>\<dots>_text1\<close>, \<dots> below, one list element per source line, cut
  where the literal has a replacement field. The arguments are strings, and formatting
  a string into an f-string raises nothing, so the results are plain strings.
  Only \<^verbatim>\<open>validation_format\<close> reads a global, the list \<^verbatim>\<open>scope_files\<close>, at the time of the
  call.
\<close>

definition question_generator_text0 :: string where
  \<open>question_generator_text0 = concat [
    ''\<newline>'',
    ''# **Generate 150+ Targeted Security Audit Questions for AElf Core Smart Contracts (C#)**\<newline>'',
    ''\<newline>'',
    ''## **Context**\<newline>'',
    ''\<newline>'',
    ''The target project is **AElf**'s C# smart-contract suite that runs on the AElf blockchain. Major domains:\<newline>'',
    ''- **Consensus (AEDPoS)**: round generation, miner lists, time slots, secret sharing, consensus command generation, maximum miner count and emergency behaviours.\<newline>'',
    ''- **Governance & Authorization**: Parliament, Referendum, Association multi-sig, Configuration, Genesis (BasicContractZero) method fee provider, organization thresholds, proposal lifecycle, proposer whitelists.\<newline>'',
    ''- **Economics & Treasury**: Economic parameters, Treasury reserves, Profit distributions, TokenHolder dividends, method-fee collection and distribution.\<newline>'',
    ''- **Tokens & Assets**: MultiToken (fungible/NFT issuance, mint/burn, allowances), NFT contract, TokenConverter (Bancor-based swap/price curve), TokenHolder staking/lockers.\<newline>'',
    ''- **Cross-Chain**: CrossChain indexing/verification, side-chain block header validation, merkle proofs, irreversible block height handling.\<newline>'',
    ''- **Elections & Voting**: Election and Vote contracts, candidate management, elector vote locking and reward settlement.\<newline>'',
    ''\<newline>'',
    ''## **Scope**\<newline>'',
    ''\<newline>'',
    ''**CRITICAL TARGET FILE**: Focus question generation EXCLUSIVELY on `''
  ]\<close>

definition question_generator_text1 :: string where
  \<open>question_generator_text1 = concat [
    ''`\<newline>'',
    ''\<newline>'',
    ''Questions must be generated from `''
  ]\<close>

definition question_generator_text2 :: string where
  \<open>question_generator_text2 = concat [
    ''` only. If you cannot reach 150 questions from this file, produce as many high-quality, file-specific questions as possible. If the file exceeds ~1000 lines, go up to 300+ questions. Do not return empty results.\<newline>'',
    ''\<newline>'',
    ''## **Core AElf Components** (for reference only)\<newline>'',
    ''\<newline>'',
    ''```python\<newline>'',
    ''core_components = [\<newline>'',
    ''    "contract/AElf.Contracts.Consensus.AEDPoS/*",\<newline>'',
    ''    "contract/AElf.Contracts.CrossChain/*",\<newline>'',
    ''    "contract/AElf.Contracts.Parliament/*",\<newline>'',
    ''    "contract/AElf.Contracts.Referendum/*",\<newline>'',
    ''    "contract/AElf.Contracts.Association/*",\<newline>'',
    ''    "contract/AElf.Contracts.Configuration/*",\<newline>'',
    ''    "contract/AElf.Contracts.Economic/*",\<newline>'',
    ''    "contract/AElf.Contracts.Treasury/*",\<newline>'',
    ''    "contract/AElf.Contracts.Profit/*",\<newline>'',
    ''    "contract/AElf.Contracts.Vote/*",\<newline>'',
    ''    "contract/AElf.Contracts.Election/*",\<newline>'',
    ''    "contract/AElf.Contracts.MultiToken/*",\<newline>'',
    ''    "contract/AElf.Contracts.NFT/*",\<newline>'',
    ''    "contract/AElf.Contracts.TokenConverter/*",\<newline>'',
    ''    "contract/AElf.Contracts.TokenHolder/*",\<newline>'',
    ''    "contract/AElf.Contracts.Genesis/*",\<newline>'',
    '']\<newline>'',
    ''```\<newline>'',
    ''\<newline>'',
    ''## **Critical Invariant Areas**\<newline>'',
    ''\<newline>'',
    ''- **Auth & Governance**: proposal creation/approval thresholds, organization auth (Parliament/Association/Referendum), proposer whitelist checks, method fee provider auth, token whitelist/blacklist rules.\<newline>'',
    ''- **Consensus Safety**: round updates, miner list transitions, time-slot validation, consensus command correctness, LIB height calculations, secret-sharing flows, punishment and dividends distribution.\<newline>'',
    ''- **Token & Supply Integrity**: mint/burn constraints, allowance/approval checks, fee deductions, lock/unlock flows, NFT issuance uniqueness, delegation logic.\<newline>'',
    ''- **Economic & Treasury Accounting**: Profit/Treasury share calculations, donation/release mechanics, dividend pool distribution, TokenHolder reward math.\<newline>'',
    ''- **Cross-Chain Verification**: merkle proof validation, index heights, parent-chain info integrity, side-chain creation/indexing security, re-org handling.\<newline>'',
    ''- **Converter & Pricing**: Bancor formula correctness, reserve balances, price slippage limits, insufficient reserve handling.\<newline>'',
    ''\<newline>'',
    ''## **In-Scope Vulnerability Categories**\<newline>'',
    ''\<newline>'',
    ''- Authorization/governance bypass enabling unauthorized proposal execution, token mint/burn, fee changes, or config updates.\<newline>'',
    ''- Consensus or cross-chain validation flaws enabling fake headers, incorrect round transitions, or mining schedule corruption.\<newline>'',
    ''- Accounting/math errors causing supply inflation/deflation, dividend misallocation, or fee leakage.\<newline>'',
    ''- Lock/vesting/approval bugs allowing premature withdrawals or denial of rewards.\<newline>'',
    ''- Pricing or reserve-handling mistakes in TokenConverter leading to underpriced swaps or pool depletion.\<newline>'',
    ''- DOS vectors that freeze governance, consensus progress, cross-chain indexing, or token operations through valid calls.\<newline>'',
    ''\<newline>'',
    ''## **Question Format Template**\<newline>'',
    ''\<newline>'',
    ''Each question MUST follow this Python list format:\<newline>'',
    ''\<newline>'',
    ''```python\<newline>'',
    ''questions = [\<newline>'',
    ''    "[File: ''
  ]\<close>

definition question_generator_text3 :: string where
  \<open>question_generator_text3 = concat [
    ''] [Function: functionName()] [Vulnerability Type] Specific exploit scenario with preconditions, violated invariant, attacker action, and concrete impact? (High)",\<newline>'',
    '']\<newline>'',
    ''```\<newline>'',
    ''\<newline>'',
    ''## **Output Requirements**\<newline>'',
    ''\<newline>'',
    ''Generate questions focusing EXCLUSIVELY on `''
  ]\<close>

definition question_generator_text4 :: string where
  \<open>question_generator_text4 = concat [
    ''` that:\<newline>'',
    ''- Reference real functions/methods/logic blocks in `''
  ]\<close>

definition question_generator_text5 :: string where
  \<open>question_generator_text5 = concat [
    ''`\<newline>'',
    ''- Include concrete exploit paths, not generic checks\<newline>'',
    ''- Tie each question to math logic, business logic, or invariant breaks\<newline>'',
    ''- Prioritize questions likely to result in **valid vulnerabilities**\<newline>'',
    ''- Avoid low-signal or non-exploitable questions\<newline>'',
    ''- Include severity `(Critical/High/Medium/Low)` in each question\<newline>'',
    ''- Use exact Python list format\<newline>'',
    ''\<newline>'',
    ''## **Target Question Count**\<newline>'',
    ''\<newline>'',
    ''- Small files: 80-150 questions when possible\<newline>'',
    ''- Medium files: 150+ questions\<newline>'',
    ''- Very large files (>1000 lines): 300+ questions\<newline>'',
    ''- If code size limits quantity, output as many quality questions as possible\<newline>'',
    ''\<newline>'',
    ''Begin generating questions for `''
  ]\<close>

definition question_generator_text6 :: string where
  \<open>question_generator_text6 = concat [
    ''` now.\<newline>''
  ]\<close>

definition validation_format_text0 :: string where
  \<open>validation_format_text0 = concat [
    ''\<newline>'',
    ''You are an **Elite AElf Smart Contract Security Judge** with deep expertise in C# contracts, AElf runtime semantics, AEDPoS consensus, governance organizations (Parliament/Referendum/Association), MultiToken/NFT supply rules, TokenConverter pricing, Profit/Treasury distributions, cross-chain indexing, and election/vote mechanics.\<newline>'',
    ''\<newline>'',
    ''Your ONLY task is **ruthless technical validation** of the claim below.\<newline>'',
    ''\<newline>'',
    ''Trusted roles: genesis method-fee provider, organization controllers (Parliament/Association/Referendum), consensus system contracts; assume they are honest unless the claim is about mis-scoped privileges.\<newline>'',
    ''\<newline>'',
    ''**SECURITY CLAIM TO VALIDATE:**\<newline>''
  ]\<close>

definition validation_format_text1 :: string where
  \<open>validation_format_text1 = concat [
    ''\<newline>'',
    ''\<newline>'',
    ''================================================================================\<newline>'',
    ''## **AELF VALIDATION FRAMEWORK**\<newline>'',
    ''\<newline>'',
    ''### **PHASE 1: IMMEDIATE DISQUALIFICATION CHECKS**\<newline>'',
    ''Reject immediately (`#NoVulnerability`) if **ANY** apply.\<newline>'',
    ''\<newline>'',
    ''Before a vulnerability is valid it must have BOTH:\<newline>'',
    ''1) concrete impact to protocol/users/funds/state integrity\<newline>'',
    ''2) feasible likelihood / trigger path\<newline>'',
    ''\<newline>'',
    ''If it cannot be triggered realistically, reject (except directly reachable invariant breaks).\<newline>'',
    ''\<newline>'',
    ''Return MUST be either:\<newline>'',
    ''- the original report (if valid)\<newline>'',
    ''- `#NoVulnerability` (if invalid)\<newline>'',
    ''\<newline>'',
    ''Any vuln without valid protocol impact is invalid.\<newline>'',
    ''Attacker self-harm-only scenarios are invalid.\<newline>'',
    ''\<newline>'',
    ''#### **A. Scope Violations**\<newline>'',
    ''- '', [CHR 0xE2, CHR 0x9D, CHR 0x8C], '' Affects files not in production source scope\<newline>'',
    ''- '', [CHR 0xE2, CHR 0x9D, CHR 0x8C], '' Targets tests, mocks, examples, scripts, docs, comments, style-only issues\<newline>'',
    ''- '', [CHR 0xE2, CHR 0x9D, CHR 0x8C], '' Off-chain tooling instead of on-chain contract logic\<newline>'',
    ''\<newline>'',
    ''**In-Scope AElf smart contract files**\<newline>'',
    ''```python\<newline>'',
    ''scope_files = ''
  ]\<close>

definition validation_format_text2 :: string where
  \<open>validation_format_text2 = concat [
    ''\<newline>'',
    ''```\<newline>'',
    ''\<newline>'',
    ''#### **B. Threat Model Violations**\<newline>'',
    ''- '', [CHR 0xE2, CHR 0x9D, CHR 0x8C], '' Requires compromised genesis/organization/consensus keys\<newline>'',
    ''- '', [CHR 0xE2, CHR 0x9D, CHR 0x8C], '' Assumes consensus break or chain reorg control beyond protocol rules\<newline>'',
    ''- '', [CHR 0xE2, CHR 0x9D, CHR 0x8C], '' Breaks cryptographic primitives or AElf VM internals\<newline>'',
    ''- '', [CHR 0xE2, CHR 0x9D, CHR 0x8C], '' Relies on phishing/social engineering/wallet compromise\<newline>'',
    ''- '', [CHR 0xE2, CHR 0x9D, CHR 0x8C], '' Pure network-layer attacks (DDoS/BGP/DNS/etc.)\<newline>'',
    ''\<newline>'',
    ''#### **C. Non-Security / Known Issues**\<newline>'',
    ''- '', [CHR 0xE2, CHR 0x9D, CHR 0x8C], '' Already fixed/known with no live exploit path\<newline>'',
    ''- '', [CHR 0xE2, CHR 0x9D, CHR 0x8C], '' Gas/performance/style tweaks without security impact\<newline>'',
    ''- '', [CHR 0xE2, CHR 0x9D, CHR 0x8C], '' Logging/events/doc-only issues\<newline>'',
    ''- '', [CHR 0xE2, CHR 0x9D, CHR 0x8C], '' Theoretical concerns with no executable path/impact\<newline>'',
    ''\<newline>'',
    ''#### **D. Invalid Exploit Scenarios**\<newline>'',
    ''- '', [CHR 0xE2, CHR 0x9D, CHR 0x8C], '' Impossible inputs or unreachable internal-only methods\<newline>'',
    ''- '', [CHR 0xE2, CHR 0x9D, CHR 0x8C], '' Requires privileges attacker cannot obtain\<newline>'',
    ''- '', [CHR 0xE2, CHR 0x9D, CHR 0x8C], '' Needs self-loss with no protocol invariant break\<newline>'',
    ''- '', [CHR 0xE2, CHR 0x9D, CHR 0x8C], '' No measurable impact on balances, ownership, authorization, or availability\<newline>'',
    ''\<newline>'',
    ''### **PHASE 2: AELF DEEP CODE VALIDATION**\<newline>'',
    ''\<newline>'',
    ''#### **Step 1: Trace Complete Execution Path**\<newline>'',
    ''Reconstruct:\<newline>'',
    ''1. Entry point (public method on the contract)\<newline>'',
    ''2. Full call chain\<newline>'',
    ''3. Pre-state (organization thresholds, proposal status, miner list/round info, token balances/allowances/locks, reserve balances, profit/treasury pools, cross-chain index heights)\<newline>'',
    ''4. State transitions at each step\<newline>'',
    ''5. Existing guards (authority checks, proposal approvals, fee deduction, time/height checks, supply bounds, signature/proof validation, duplicate protection)\<newline>'',
    ''6. Final post-state and violated invariant\<newline>'',
    ''\<newline>'',
    ''If any step is missing or unreachable, return `#NoVulnerability`.\<newline>'',
    ''\<newline>'',
    ''#### **Step 2: Evidence Requirements**\<newline>'',
    ''A valid report must provide:\<newline>'',
    ''- Exact file path(s) and relevant code references\<newline>'',
    ''- Concrete vulnerable logic and bypass explanation\<newline>'',
    ''- Triggerable transaction flow with realistic attacker actions\<newline>'',
    ''- Why protections do not stop it\<newline>'',
    ''- Quantified impact (fund loss/supply inflation, unauthorized config/proposal execution, cross-chain spoofing, governance capture)\<newline>'',
    ''\<newline>'',
    ''Red flags -> invalid:\<newline>'',
    ''- '', [CHR 0xE2, CHR 0x80, CHR 0x9C], ''might be vulnerable'', [CHR 0xE2, CHR 0x80, CHR 0x9D], '' without exploit sequence\<newline>'',
    ''- no clear invariant broken\<newline>'',
    ''- no impact beyond revert/no-op\<newline>'',
    ''- assumptions that contradict AElf VM and contract semantics\<newline>'',
    ''\<newline>'',
    ''#### **Step 3: AELF-Specific Validity Checks**\<newline>'',
    ''Validate against these domains:\<newline>'',
    ''\<newline>'',
    ''1. **Governance & Auth**\<newline>'',
    ''- Parliament/Association/Referendum thresholds, proposer whitelist, organization hashes, proposal lifetime, method-fee provider authority.\<newline>'',
    ''\<newline>'',
    ''2. **Consensus**\<newline>'',
    ''- Round transitions, miner schedule, time-slot validation, maximum miners, LIB height, secret sharing, dividends pool handling.\<newline>'',
    ''\<newline>'',
    ''3. **Tokens & Supply**\<newline>'',
    ''- MultiToken mint/burn rules, allowances, fee deductions, lock/unlock, NFT uniqueness, delegation/approval paths.\<newline>'',
    ''\<newline>'',
    ''4. **Economics & Rewards**\<newline>'',
    ''- Treasury/Profit/TokenHolder calculations, donation/release logic, share/distribution math, vote staking/lock durations.\<newline>'',
    ''\<newline>'',
    ''5. **Cross-Chain**\<newline>'',
    ''- Merkle proof validation, side-chain index heights, parent-chain info retrieval, irreversible block constraints.\<newline>'',
    ''\<newline>'',
    ''6. **Pricing (TokenConverter)**\<newline>'',
    ''- Bancor formula, reserve ratio bounds, slippage controls, insufficient reserve handling, price rounding.\<newline>'',
    ''\<newline>'',
    ''### **PHASE 3: IMPACT + LIKELIHOOD JUDGMENT**\<newline>'',
    ''\<newline>'',
    ''Valid ONLY if BOTH are true:\<newline>'',
    ''\<newline>'',
    ''1. **Impact**\<newline>'',
    ''- Fund loss/misdirection, supply inflation/deflation, reward misallocation\<newline>'',
    ''- Unauthorized governance/config/fee changes\<newline>'',
    ''- Consensus or cross-chain integrity break\<newline>'',
    ''- High-confidence DoS of governance/consensus/token operations\<newline>'',
    ''\<newline>'',
    ''2. **Likelihood**\<newline>'',
    ''- Executable by untrusted actor via public methods\<newline>'',
    ''- Realistic preconditions\<newline>'',
    ''- Reproducible under AElf runtime rules\<newline>'',
    ''\<newline>'',
    ''If either fails -> `#NoVulnerability`.\<newline>'',
    ''\<newline>'',
    ''### **DECISION OUTPUT (STRICT)**\<newline>'',
    ''           \<newline>'',
    ''---            \<newline>'',
    ''            \<newline>'',
    ''**AUDIT REPORT FORMAT** (if vulnerability found):            \<newline>'',
    ''            \<newline>'',
    ''Audit Report            \<newline>'',
    ''            \<newline>'',
    ''## Title \<newline>'',
    ''The Title Of the Report \<newline>'',
    ''\<newline>'',
    ''## Summary\<newline>'',
    ''A short summary of the issue, keep it brief.\<newline>'',
    ''\<newline>'',
    ''## Finding Description\<newline>'',
    ''A more detailed explanation of the issue. Poorly written or incorrect findings may result in rejection and a decrease of reputation score.\<newline>'',
    ''\<newline>'',
    ''Describe which security guarantees it breaks and how it breaks them. If this bug does not automatically happen, showcase how a malicious input would propagate through the system to the part of the code where the issue occurs.\<newline>'',
    ''\<newline>'',
    ''## Impact Explanation\<newline>'',
    ''Elaborate on why you've chosen a particular impact assessment.\<newline>'',
    ''\<newline>'',
    ''## Likelihood Explanation\<newline>'',
    ''Explain how likely this is to occur and why.\<newline>'',
    ''\<newline>'',
    ''\<newline>'',
    ''## Recommendation\<newline>'',
    ''How can the issue be fixed or solved. Preferably, you can also add a snippet of the fixed code here.\<newline>'',
    ''\<newline>'',
    ''\<newline>'',
    ''## Proof of Concept\<newline>'',
    ''Note very important the poc must have a valid test that runs just one function that proove the vuln \<newline>'',
    ''  **Remember**: False positives harm credibility more than missed findings. Assume claims are invalid until overwhelming evidence proves otherwise.    \<newline>'',
    ''    \<newline>'',
    ''**Now perform STRICT validation of the claim above.**    \<newline>'',
    ''    \<newline>'',
    ''**Output ONLY:**    \<newline>'',
    ''- A full audit report (if genuinely valid after passing **all** checks above) following the specified format    \<newline>'',
    ''- `#NoVulnerability found for this question.` (if **any** check fails) very important    \<newline>'',
    ''- Note if u cant validate the claim or dont understand just send #NoVulnerability    \<newline>'',
    ''- Only show full report when u know this is actually and truly a  valid vulnerability \<newline>''
  ]\<close>

definition audit_format_text0 :: string where
  \<open>audit_format_text0 = concat [
    ''# AELF SMART CONTRACT SECURITY AUDIT PROMPT\<newline>'',
    ''\<newline>'',
    ''## Security Question to Investigate:\<newline>''
  ]\<close>

definition audit_format_text1 :: string where
  \<open>audit_format_text1 = concat [
    ''\<newline>'',
    ''\<newline>'',
    ''## Codebase Context\<newline>'',
    ''\<newline>'',
    ''### Core Components\<newline>'',
    ''You are auditing **AElf** C# contracts that include:\<newline>'',
    ''- **Consensus (AEDPoS)**: round generation, miner lists, time slots, consensus command generation, dividends pool.\<newline>'',
    ''- **Governance**: Parliament, Association (multi-sig), Referendum, Configuration, Genesis method fee provider.\<newline>'',
    ''- **Economics & Rewards**: Economic initialization, Treasury, Profit, TokenHolder staking/dividends.\<newline>'',
    ''- **Tokens & Assets**: MultiToken (fungible + NFT), NFT contract, TokenConverter (Bancor pricing), TokenHolder locking.\<newline>'',
    ''- **Cross-Chain**: CrossChain indexing/verification, parent/side-chain info, irreversible block heights.\<newline>'',
    ''- **Elections & Voting**: Election and Vote contracts managing candidates, electors, vote locks.\<newline>'',
    ''\<newline>'',
    ''## CRITICAL INVARIANTS (Must Hold at All Times)\<newline>'',
    ''\<newline>'',
    ''1. **Authorization & Governance**\<newline>'',
    ''- Organization thresholds, proposer whitelist checks, proposal lifetime/expiration, correct organization hash resolution, method-fee provider authority.\<newline>'',
    ''\<newline>'',
    ''2. **Consensus & Cross-Chain**\<newline>'',
    ''- Correct round transitions and time-slot validation, miner schedule integrity, LIB height rules, cross-chain proof verification and index heights.\<newline>'',
    ''\<newline>'',
    ''3. **Token Supply & Fees**\<newline>'',
    ''- Mint/burn limits, allowance/approval enforcement, lock/unlock correctness, fee deduction paths, NFT uniqueness and ownership checks.\<newline>'',
    ''\<newline>'',
    ''4. **Economics & Treasury**\<newline>'',
    ''- Profit/Treasury/TokenHolder share calculations, donation/release logic, dividend distribution and settlement accuracy.\<newline>'',
    ''\<newline>'',
    ''5. **Pricing & Reserves**\<newline>'',
    ''- Bancor reserve ratio bounds, swap price calculation, slippage controls, reserve depletion protection.\<newline>'',
    ''\<newline>'',
    ''## ATTACK SURFACES\<newline>'',
    ''\<newline>'',
    ''### 1. Governance & Proposals\<newline>'',
    ''- Parliament/Association/Referendum proposal creation, approval thresholds, release, and execution paths; organization updates; proposer whitelist logic.\<newline>'',
    ''\<newline>'',
    ''### 2. Consensus & Cross-Chain\<newline>'',
    ''- Round/term update functions, time-slot validation, miner list mutations, consensus command generation, parent/side-chain indexing, merkle proof verification.\<newline>'',
    ''\<newline>'',
    ''### 3. Token & Fee Paths\<newline>'',
    ''- MultiToken mint/burn/transfer/lock, method-fee deduction, NFT mint/transfer, token approvals, TokenHolder deposits/withdrawals.\<newline>'',
    ''\<newline>'',
    ''### 4. Economics & Distribution\<newline>'',
    ''- Treasury donations/releases, Profit scheme creation/distribution, TokenHolder dividends, election reward allocations.\<newline>'',
    ''\<newline>'',
    ''### 5. Pricing & Conversion\<newline>'',
    ''- TokenConverter swap paths, reserve updates, virtual balances, price precision/rounding.\<newline>'',
    ''\<newline>'',
    ''## VULNERABILITY VALIDATION REQUIREMENTS\<newline>'',
    ''\<newline>'',
    ''A finding is ONLY valid if it passes ALL checks:\<newline>'',
    ''\<newline>'',
    ''### Impact Assessment (Must be Concrete)\<newline>'',
    ''- [ ] **Direct Fund Impact**: theft, inflation/deflation, reward misallocation\<newline>'',
    ''- [ ] **Auth/Governance Impact**: unauthorized proposal execution/config change\<newline>'',
    ''- [ ] **Consensus/Cross-Chain Integrity**: fake header/proof acceptance, invalid round transitions\<newline>'',
    ''- [ ] **Operational Impact**: DoS of governance/consensus/token/cross-chain flows\<newline>'',
    ''\<newline>'',
    ''### Likelihood Assessment (Must be Practical)\<newline>'',
    ''- [ ] **Reachable Entry Point**: starts from real public method\<newline>'',
    ''- [ ] **Feasible Preconditions**: attacker capabilities realistic\<newline>'',
    ''- [ ] **Execution Practicality**: steps executable under AElf contract semantics\<newline>'',
    ''- [ ] **Economic Rationality**: exploit cost reasonable\<newline>'',
    ''\<newline>'',
    ''### Validation Checklist\<newline>'',
    ''Before reporting a vulnerability, verify:\<newline>'',
    ''1. [ ] Exact file/function/line references\<newline>'',
    ''2. [ ] Root cause clearly identified\<newline>'',
    ''3. [ ] End-to-end exploitation path\<newline>'',
    ''4. [ ] Existing checks shown insufficient\<newline>'',
    ''5. [ ] Realistic attack parameters and sequence\<newline>'',
    ''6. [ ] Concrete impact quantification\<newline>'',
    ''7. [ ] No reliance on trusted role compromise beyond claim\<newline>'',
    ''8. [ ] No contradiction with AElf VM/execution model\<newline>'',
    ''\<newline>'',
    ''## AUDIT REPORT FORMAT\<newline>'',
    ''\<newline>'',
    ''If a valid vulnerability is found (passes all checks), output this EXACT structure:\<newline>'',
    ''\<newline>'',
    ''### Title\<newline>'',
    ''[Concise vulnerability title]\<newline>'',
    ''\<newline>'',
    ''### Summary\<newline>'',
    ''[2-3 sentence summary of issue and consequence]\<newline>'',
    ''\<newline>'',
    ''### Finding Description\<newline>'',
    ''[Technical details including:\<newline>'',
    ''- exact code location(s)\<newline>'',
    ''- root cause\<newline>'',
    ''- why protections fail\<newline>'',
    ''- relevant execution path]\<newline>'',
    ''\<newline>'',
    ''### Impact Explanation\<newline>'',
    ''[Concrete impact:\<newline>'',
    ''- what harm occurs\<newline>'',
    ''- quantified value/protocol damage\<newline>'',
    ''- who is affected\<newline>'',
    ''- severity justification]\<newline>'',
    ''\<newline>'',
    ''### Likelihood Explanation\<newline>'',
    ''[Realistic exploitability:\<newline>'',
    ''- attacker capabilities\<newline>'',
    ''- attack complexity\<newline>'',
    ''- feasibility conditions\<newline>'',
    ''- detection/operational constraints\<newline>'',
    ''- probability reasoning]\<newline>'',
    ''\<newline>'',
    ''### Recommendation\<newline>'',
    ''[Actionable fix:\<newline>'',
    ''- exact code-level mitigation\<newline>'',
    ''- invariant checks to add\<newline>'',
    ''- test cases to prevent regression]\<newline>'',
    ''\<newline>'',
    ''### Proof of Concept\<newline>'',
    ''[Reproducible exploit sequence:\<newline>'',
    ''- required initial state\<newline>'',
    ''- transaction steps\<newline>'',
    ''- expected vs actual result\<newline>'',
    ''- clear success condition]\<newline>'',
    ''\<newline>'',
    ''## STRICT OUTPUT REQUIREMENT\<newline>'',
    ''\<newline>'',
    ''After investigation:\<newline>'',
    ''\<newline>'',
    ''IF a vulnerability passes ALL validation gates with clear evidence:\<newline>'',
    ''-> Output the complete audit report in the format above\<newline>'',
    ''\<newline>'',
    ''IF no valid vulnerability exists:\<newline>'',
    ''-> Output exactly: "#NoVulnerability found for this question."\<newline>'',
    ''\<newline>'',
    ''Do not output anything else.\<newline>'',
    ''\<newline>'',
    ''## Investigation Guidelines\<newline>'',
    ''\<newline>'',
    ''1. Start from entry functions reachable by untrusted users\<newline>'',
    ''2. Trace full state transitions and all side effects\<newline>'',
    ''3. Check math/rounding/bounds and extreme values\<newline>'',
    ''4. Check cross-contract flows (consensus <-> governance <-> token <-> profit/treasury <-> converter <-> cross-chain)\<newline>'',
    ''5. Validate authority/time/height checks end-to-end\<newline>'',
    ''6. Reject speculative findings lacking concrete exploit path\<newline>'',
    ''\<newline>'',
    ''Remember: only report vulnerabilities with both valid impact and valid likelihood.\<newline>'',
    ''\<newline>'',
    ''Begin investigation of: ''
  ]\<close>

definition audit_format_text2 :: string where
  \<open>audit_format_text2 = concat [
    ''\<newline>'',
    ''\<newline>''
  ]\<close>

definition scan_format_text0 :: string where
  \<open>scan_format_text0 = concat [
    ''# AELF CROSS-PROTOCOL ANALOG SCAN PROMPT\<newline>'',
    ''\<newline>'',
    ''## External Report To Map Into AElf\<newline>''
  ]\<close>

definition scan_format_text1 :: string where
  \<open>scan_format_text1 = concat [
    ''\<newline>'',
    ''\<newline>'',
    ''## Objective\<newline>'',
    ''You are a senior protocol security researcher. Analyze the external report above and determine whether the **same vulnerability class** (not necessarily exact code pattern) can occur anywhere in AElf smart contracts.\<newline>'',
    ''\<newline>'',
    ''You must scan AElf contract logic across modules, execution paths, state transitions, and invariants.\<newline>'',
    ''\<newline>'',
    ''## AElf Modules To Scan\<newline>'',
    ''\<newline>'',
    ''- `contract/AElf.Contracts.Consensus.AEDPoS/*`\<newline>'',
    ''- `contract/AElf.Contracts.CrossChain/*`\<newline>'',
    ''- `contract/AElf.Contracts.Parliament/*`\<newline>'',
    ''- `contract/AElf.Contracts.Association/*`\<newline>'',
    ''- `contract/AElf.Contracts.Referendum/*`\<newline>'',
    ''- `contract/AElf.Contracts.Configuration/*`\<newline>'',
    ''- `contract/AElf.Contracts.Genesis/*`\<newline>'',
    ''- `contract/AElf.Contracts.Election/*`\<newline>'',
    ''- `contract/AElf.Contracts.Vote/*`\<newline>'',
    ''- `contract/AElf.Contracts.MultiToken/*`\<newline>'',
    ''- `contract/AElf.Contracts.NFT/*`\<newline>'',
    ''- `contract/AElf.Contracts.TokenConverter/*`\<newline>'',
    ''- `contract/AElf.Contracts.Treasury/*`\<newline>'',
    ''- `contract/AElf.Contracts.Profit/*`\<newline>'',
    ''- `contract/AElf.Contracts.TokenHolder/*`\<newline>'',
    ''\<newline>'',
    ''## Core Scan Method\<newline>'',
    ''\<newline>'',
    ''1. **Classify the external vuln type**\<newline>'',
    ''- governance/authorization bypass\<newline>'',
    ''- consensus or cross-chain validation flaw\<newline>'',
    ''- token supply/allowance/lock/accounting error\<newline>'',
    ''- pricing/reserve miscalculation (TokenConverter)\<newline>'',
    ''- reward/treasury/profit distribution bug\<newline>'',
    ''- denial of service via valid calls (governance, consensus, cross-chain, token operations)\<newline>'',
    ''\<newline>'',
    ''2. **Map to AElf analog surfaces**\<newline>'',
    ''- Identify equivalent trust boundaries and data-flow points across modules\<newline>'',
    ''- Consider proposal-based execution (Parliament/Association/Referendum), consensus time-slot updates, token mint/burn/transfer/lock flows, Bancor pricing, dividend distribution, cross-chain proof verification\<newline>'',
    ''- Check cross-module interactions (e.g., proposal executes token mint; consensus uses economic data; cross-chain indexing updates token states)\<newline>'',
    ''\<newline>'',
    ''3. **Trace full exploitability path**\<newline>'',
    ''- Real entry point (public contract methods)\<newline>'',
    ''- Preconditions attacker can realistically satisfy\<newline>'',
    ''- Step-by-step transition chain\<newline>'',
    ''- Why current checks fail\<newline>'',
    ''- Final broken invariant\<newline>'',
    ''\<newline>'',
    ''4. **Validate impact + likelihood strictly**\<newline>'',
    ''- Must have concrete protocol impact\<newline>'',
    ''- Must have realistic trigger path\<newline>'',
    ''- No speculative or theoretical-only claims\<newline>'',
    ''\<newline>'',
    ''## Critical Invariants To Test During Scan\<newline>'',
    ''\<newline>'',
    ''- Governance thresholds/proposal lifetimes/organization hashes respected\<newline>'',
    ''- AEDPoS round/time-slot/miner list integrity maintained\<newline>'',
    ''- Token mint/burn/transfer/lock rules and fee deductions enforced\<newline>'',
    ''- Profit/Treasury/TokenHolder distributions correct and bounded\<newline>'',
    ''- Cross-chain proofs/irreversible height checks valid\<newline>'',
    ''- TokenConverter reserve ratio, price calculation, and slippage protections enforced\<newline>'',
    ''\<newline>'',
    ''## Disqualification Rules (Immediate #NoVulnerability)\<newline>'',
    ''\<newline>'',
    ''Reject if ANY apply:\<newline>'',
    ''\<newline>'',
    ''- Not reproducible through AElf public contract methods\<newline>'',
    ''- Requires compromised genesis/organization/consensus keys\<newline>'',
    ''- Depends on impossible AElf execution assumptions\<newline>'',
    ''- Only causes self-harm or non-protocol impact\<newline>'',
    ''- No concrete impact on funds, ownership, authorization, or critical availability\<newline>'',
    ''- Impact exists but no realistic likelihood\<newline>'',
    ''- Likelihood exists but no valid impact\<newline>'',
    ''\<newline>'',
    ''## Required Decision Standard\<newline>'',
    ''\<newline>'',
    ''A vulnerability is valid ONLY if BOTH are true:\<newline>'',
    ''\<newline>'',
    ''1. **Valid Impact**\<newline>'',
    ''- Fund theft/drain or supply/fee misrouting\<newline>'',
    ''- Unauthorized governance/config/proposal execution\<newline>'',
    ''- Consensus/cross-chain integrity break\<newline>'',
    ''- Pricing/accounting corruption in TokenConverter/Treasury/Profit\<newline>'',
    ''- High-confidence protocol DoS via valid calls\<newline>'',
    ''\<newline>'',
    ''2. **Valid Likelihood**\<newline>'',
    ''- Reachable by untrusted actor\<newline>'',
    ''- Feasible preconditions\<newline>'',
    ''- Executable sequence under AElf rules\<newline>'',
    ''- Not blocked by existing checks\<newline>'',
    ''\<newline>'',
    ''If either fails, it is invalid.\<newline>'',
    ''\<newline>'',
    ''## Output Format (Strict)\<newline>'',
    ''\<newline>'',
    ''If a valid analog vulnerability is found in AElf, output full report in this exact structure:\<newline>'',
    ''\<newline>'',
    ''### Title\<newline>'',
    ''[Concise vulnerability title]\<newline>'',
    ''\<newline>'',
    ''### Summary\<newline>'',
    ''[2-3 sentence summary of mapped vulnerability and impact]\<newline>'',
    ''\<newline>'',
    ''### Finding Description\<newline>'',
    ''[Detailed technical mapping from external report type to AElf:\<newline>'',
    ''- exact file/function/line references\<newline>'',
    ''- root cause in AElf\<newline>'',
    ''- exploit path and why protections fail]\<newline>'',
    ''\<newline>'',
    ''### Impact Explanation\<newline>'',
    ''[Concrete AElf impact and severity justification]\<newline>'',
    ''\<newline>'',
    ''### Likelihood Explanation\<newline>'',
    ''[Realistic exploit feasibility in AElf context]\<newline>'',
    ''\<newline>'',
    ''### Recommendation\<newline>'',
    ''[Specific code-level mitigation for AElf]\<newline>'',
    ''\<newline>'',
    ''### Proof of Concept\<newline>'',
    ''[Reproducible AElf exploit steps with realistic state/inputs]\<newline>'',
    ''\<newline>'',
    ''If no valid analog vulnerability is found, output exactly:\<newline>'',
    ''`#NoVulnerability found for this question.`\<newline>'',
    ''\<newline>'',
    ''Do not output anything else.\<newline>'',
    ''\<newline>'',
    ''## Additional Guidance\<newline>'',
    ''\<newline>'',
    ''- Use the external report as a vulnerability-class hint, not as proof.\<newline>'',
    ''- Confirm with AElf-specific code logic only.\<newline>'',
    ''- Prefer false-negative over false-positive.\<newline>'',
    ''- A claim without executable exploit chain is invalid.\<newline>'',
    ''\<newline>'',
    ''Begin deep analog scan now.\<newline>'',
    ''\<newline>''
  ]\<close>

definition question_generator :: "string \<Rightarrow> string" where
  "question_generator target_file =
     question_generator_text0 @ target_file @ question_generator_text1 @ target_file @
     question_generator_text2 @ target_file @ question_generator_text3 @ target_file @
     question_generator_text4 @ target_file @ question_generator_text5 @ target_file @
     question_generator_text6"

definition validation_format :: "module_globals \<Rightarrow> string \<Rightarrow> string" where
  "validation_format g report =
     validation_format_text0 @ report @ validation_format_text1 @
     py_str_list (g_scope_files g) @ validation_format_text2"

definition audit_format :: "string \<Rightarrow> string" where
  "audit_format security_question =
     audit_format_text0 @ security_question @ audit_format_text1 @ security_question @
     audit_format_text2"

definition scan_format :: "string \<Rightarrow> string" where
  "scan_format report = scan_format_text0 @ report @ scan_format_text1"

text \<open>A text without a brace has no replacement field left in it.\<close>

definition brace_free :: "string \<Rightarrow> bool" where
  "brace_free s = (CHR ''{'' \<notin> set s \<and> CHR ''}'' \<notin> set s)"

text \<open>
  The characters that \<^verbatim>\<open>repr\<close> copies unchanged between single quotes and that are no
  braces: not a control character (one of the three high bits is set), not the single
  quote, the backslash or DEL.
\<close>

definition plain_char :: "char \<Rightarrow> bool" where
  "plain_char c = (c \<noteq> CHR 0x27 \<and> c \<noteq> CHR 0x5C \<and> c \<noteq> CHR 0x7F \<and> c \<noteq> CHR ''{'' \<and> c \<noteq> CHR ''}''
                   \<and> (digit5 c \<or> digit6 c \<or> digit7 c))"

text \<open>\<open>has_pair a b xs\<close>: somewhere in \<open>xs\<close>, an \<open>a\<close> is directly followed by a \<open>b\<close>.\<close>

fun has_pair :: "'a \<Rightarrow> 'a \<Rightarrow> 'a list \<Rightarrow> bool" where
  "has_pair a b (x # y # zs) = ((x = a \<and> y = b) \<or> has_pair a b (y # zs))"
| "has_pair a b [x] = False"
| "has_pair a b [] = False"

section \<open>Properties of the cyclic index and the target URL\<close>

lemma py_int_ascii_error: "py_int_ascii l s = Inl e \<Longrightarrow> e = ValueError"
  by (auto simp: py_int_ascii_def Let_def split: list.splits option.splits if_splits)

lemma py_int_str_error: "py_int_str ip s = Inl e \<Longrightarrow> e = ValueError"
  unfolding py_int_str_def by (rule py_int_ascii_error)

lemma py_int_error: "py_int ip v = Inl e \<Longrightarrow> e = ValueError"
  by (cases v) (auto dest: py_int_str_error)

lemma py_digit_zero: "py_digit (CHR ''0'') = Some 0"
  by (simp add: py_digit_def)

lemma py_digits_zeros: "py_digits acc (replicate n (CHR ''0'')) = Some (acc * 10 ^ n)"
  by (induction n arbitrary: acc) (simp_all add: py_digit_zero)

lemma py_int_ascii_zeros:
  assumes "640 < n" and "0 < l" and "l < n"
  shows "py_int_ascii l (replicate n (CHR ''0'')) = Inl ValueError"
proof -
  from assms(1) obtain m where n: "n = Suc m" by (cases n) simp_all
  have strip: "py_strip (replicate n (CHR ''0'')) = replicate n (CHR ''0'')"
    by (simp add: py_strip_def py_isspace_def)
  have count: "length (filter (\<lambda>c. c \<noteq> CHR ''_'') (replicate n (CHR ''0''))) = n"
    by simp
  show ?thesis
    using assms count
    by (simp add: py_int_ascii_def strip Let_def py_digit_zero py_digits_zeros
        del: replicate_Suc flip: n) (simp add: n py_digit_zero py_digits_zeros)
qed

lemma zeros_ascii: "is_ascii (replicate n (CHR ''0''))"
  by (simp add: is_ascii_def)

text \<open>
  C1. For every integer \<open>run\<close> and every integer \<open>max_index \<ge> 1\<close>,
  \<open>get_cyclic_index(run, max_index)\<close> returns a value, and the value lies in the closed
  interval from 1 to \<open>max_index\<close>.
\<close>

theorem get_cyclic_index_range:
  assumes "1 \<le> max_index"
  shows "\<exists>r. get_cyclic_index ip (PyInt run) max_index = Inr r \<and> 1 \<le> r \<and> r \<le> max_index"
proof -
  from assms have pos: "0 < max_index" by simp
  have lo: "0 \<le> (run - 1) mod max_index"
    using pos by (rule pos_mod_sign)
  have hi: "(run - 1) mod max_index < max_index"
    using pos by (rule pos_mod_bound)
  from pos have "get_cyclic_index ip (PyInt run) max_index = Inr ((run - 1) mod max_index + 1)"
    by (simp add: get_cyclic_index_def)
  with lo hi show ?thesis by simp
qed

theorem get_cyclic_index_range_witness:
  "(1::int) \<le> 30 \<and>
   (\<exists>r. get_cyclic_index default_interpreter (PyInt (- 7)) 30 = Inr r \<and> 1 \<le> r \<and> r \<le> 30)"
proof -
  have h: "(1::int) \<le> 30" by simp
  show ?thesis using h get_cyclic_index_range [OF h, of default_interpreter "- 7"] by simp
qed

text \<open>
  C2. For \<open>max \<ge> 1\<close>, \<open>get_cyclic_index(run, max)\<close> is the specification's
  \<open>((run - 1) mod max) + 1\<close>, where the remainder is the mathematical one: the unique \<open>r\<close>
  with \<open>0 \<le> r < max\<close> that differs from \<open>run - 1\<close> by a multiple of \<open>max\<close>. In particular
  the index of 0, 1, 30 and 31 for a maximum of 30 is 30, 1, 30 and 1.
\<close>

theorem get_cyclic_index_formula:
  "(\<forall>run m. 1 \<le> m \<longrightarrow>
      get_cyclic_index ip (PyInt run) m = Inr (cyclicIndex run m) \<and>
      (\<exists>q r. run - 1 = q * m + r \<and> 0 \<le> r \<and> r < m \<and> cyclicIndex run m = r + 1)) \<and>
   get_cyclic_index ip (PyInt 0) 30 = Inr 30 \<and>
   get_cyclic_index ip (PyInt 1) 30 = Inr 1 \<and>
   get_cyclic_index ip (PyInt 30) 30 = Inr 30 \<and>
   get_cyclic_index ip (PyInt 31) 30 = Inr 1"
proof -
  have general: "get_cyclic_index ip (PyInt run) m = Inr (cyclicIndex run m) \<and>
      (\<exists>q r. run - 1 = q * m + r \<and> 0 \<le> r \<and> r < m \<and> cyclicIndex run m = r + 1)"
    if m: "1 \<le> m" for run m :: int
  proof
    from m show "get_cyclic_index ip (PyInt run) m = Inr (cyclicIndex run m)"
      by (simp add: get_cyclic_index_def cyclicIndex_def)
  next
    let ?q = "(run - 1) div m" and ?r = "(run - 1) mod m"
    from m have pos: "0 < m" by simp
    have "run - 1 = ?q * m + ?r" by simp
    moreover have "0 \<le> ?r" using pos by (rule pos_mod_sign)
    moreover have "?r < m" using pos by (rule pos_mod_bound)
    moreover have "cyclicIndex run m = ?r + 1" by (simp add: cyclicIndex_def)
    ultimately show "\<exists>q r. run - 1 = q * m + r \<and> 0 \<le> r \<and> r < m \<and> cyclicIndex run m = r + 1"
      by blast
  qed
  have fixed: "get_cyclic_index ip (PyInt 0) 30 = Inr 30" "get_cyclic_index ip (PyInt 1) 30 = Inr 1"
    "get_cyclic_index ip (PyInt 30) 30 = Inr 30" "get_cyclic_index ip (PyInt 31) 30 = Inr 1"
    by (simp_all add: get_cyclic_index_def)
  from general fixed show ?thesis by blast
qed

theorem get_cyclic_index_formula_witness:
  "(1::int) \<le> 30 \<and>
   get_cyclic_index default_interpreter (PyInt (- 5)) 30 = Inr (cyclicIndex (- 5) 30) \<and>
   cyclicIndex (- 5) 30 = 25"
proof -
  have h: "(1::int) \<le> 30" by simp
  have "get_cyclic_index default_interpreter (PyInt (- 5)) 30 = Inr (cyclicIndex (- 5) 30)"
    using get_cyclic_index_formula [of default_interpreter] h by blast
  moreover have "cyclicIndex (- 5) 30 = 25" by (simp add: cyclicIndex_def)
  ultimately show ?thesis using h by simp
qed

text \<open>
  C3. When the run counter is the string \<open>0\<close> (also the default when the environment
  variable is unset), the resolver returns the canonical URL, which carries no digit at
  all; for the counter \<open>31\<close> it returns the rotating URL whose suffix is the zero-padded
  index \<open>001\<close>. This holds under every interpreter.
\<close>

theorem BASE_URL_examples:
  "run_number None = ''0'' \<and>
   BASE_URL ip ''0'' = Inr ''https://deepwiki.com/AElfProject/AElf'' \<and>
   filter (\<lambda>c. py_digit c \<noteq> None) ''https://deepwiki.com/AElfProject/AElf'' = [] \<and>
   BASE_URL ip ''31'' = Inr ''https://deepwiki.com/grass-dev-pa/aelf-001'' \<and>
   sublist ''001'' ''https://deepwiki.com/grass-dev-pa/aelf-001''"
  by code_simp

text \<open>
  C4, as the specification states it: a counter string that is not an integer literal
  makes the resolver fail with the error \<open>InvalidInput\<close>. The module has no such error:
  for the counter \<open>abc\<close> the call of \<^verbatim>\<open>int\<close> raises the built-in \<open>ValueError\<close>, which
  nothing catches.
\<close>

theorem BASE_URL_not_InvalidInput:
  "BASE_URL default_interpreter ''abc'' = Inl ValueError \<and>
   BASE_URL default_interpreter ''abc'' \<noteq> Inl InvalidInput"
  by code_simp

text \<open>
  C4, amended. Under every interpreter: if the counter string is not \<open>0\<close> and \<^verbatim>\<open>int\<close>
  raises on it, the exception is \<open>ValueError\<close>, the resolver raises it, the module does
  not load, and no URL is produced. A literal that \<^verbatim>\<open>int\<close> refuses for its length is such
  a string: with the default limit of 4300 digits, a counter of 4301 zeros raises
  \<open>ValueError\<close>.
\<close>

theorem BASE_URL_invalid_counter:
  "(\<forall>ip s e. s \<noteq> ''0'' \<and> py_int ip (PyStr s) = Inl e \<longrightarrow>
      e = ValueError \<and> BASE_URL ip s = Inl ValueError \<and>
      load_module ip (Some s) = Inl ValueError \<and> (\<forall>url. BASE_URL ip s \<noteq> Inr url)) \<and>
   (\<forall>ip. int_max_str_digits ip = 4300 \<longrightarrow>
      BASE_URL ip (replicate 4301 (CHR ''0'')) = Inl ValueError)"
proof -
  have first: "e = ValueError \<and> BASE_URL ip s = Inl ValueError \<and>
      load_module ip (Some s) = Inl ValueError \<and> (\<forall>url. BASE_URL ip s \<noteq> Inr url)"
    if ne: "s \<noteq> ''0''" and fail: "py_int ip (PyStr s) = Inl e" for ip s e
  proof -
    from fail have e: "e = ValueError" by (rule py_int_error)
    with ne fail have b: "BASE_URL ip s = Inl ValueError"
      by (simp add: BASE_URL_def get_cyclic_index_def)
    then have "load_module ip (Some s) = Inl ValueError"
      by (simp add: load_module_def run_number_def)
    with e b show ?thesis by simp
  qed
  have second: "BASE_URL ip (replicate 4301 (CHR ''0'')) = Inl ValueError"
    if lim: "int_max_str_digits ip = 4300" for ip
  proof -
    let ?z = "replicate 4301 (CHR ''0'')"
    have "length ?z \<noteq> length ''0''" by simp
    then have ne: "?z \<noteq> ''0''" by (metis (full_types))
    have "py_int_str ip ?z = py_int_ascii 4300 ?z"
      by (simp only: py_int_str_def zeros_ascii lim if_True)
    also have "\<dots> = Inl ValueError"
      by (rule py_int_ascii_zeros) simp_all
    finally have "py_int ip (PyStr ?z) = Inl ValueError" by simp
    with ne show ?thesis
      by (simp only: BASE_URL_def get_cyclic_index_def if_False sum.case)
  qed
  from first second show ?thesis by blast
qed

theorem BASE_URL_invalid_counter_witness:
  "''1.5'' \<noteq> ''0'' \<and> py_int default_interpreter (PyStr ''1.5'') = Inl ValueError \<and>
   BASE_URL default_interpreter ''1.5'' = Inl ValueError \<and>
   load_module default_interpreter (Some ''1.5'') = Inl ValueError \<and>
   int_max_str_digits default_interpreter = 4300 \<and>
   BASE_URL default_interpreter (replicate 4301 (CHR ''0'')) = Inl ValueError"
proof -
  have a: "''1.5'' \<noteq> ''0''" by simp
  have b: "py_int default_interpreter (PyStr ''1.5'') = Inl ValueError" by code_simp
  have c: "int_max_str_digits default_interpreter = 4300"
    by (simp add: default_interpreter_def)
  from a b c BASE_URL_invalid_counter show ?thesis by blast
qed

text \<open>
  C10. The canonical branch is chosen by comparing strings. Under every interpreter, a
  counter string other than \<open>0\<close> that \<^verbatim>\<open>int\<close> reads as the integer zero gives the rotating
  URL with the suffix \<open>030\<close>, not the canonical URL: so do \<open>00\<close>, \<open>+0\<close> and \<open>-0\<close>, and so
  does the Arabic-Indic digit zero (the bytes D9 A0) under an interpreter that converts
  it to the ASCII digit. Only the string \<open>0\<close> itself gives the canonical URL.
\<close>

theorem BASE_URL_zero_by_string_equality:
  "(\<forall>ip s. s \<noteq> ''0'' \<and> py_int ip (PyStr s) = Inr 0 \<longrightarrow>
      BASE_URL ip s = Inr ''https://deepwiki.com/grass-dev-pa/aelf-030'') \<and>
   (\<forall>ip. BASE_URL ip ''00'' = Inr ''https://deepwiki.com/grass-dev-pa/aelf-030'' \<and>
         BASE_URL ip ''+0'' = Inr ''https://deepwiki.com/grass-dev-pa/aelf-030'' \<and>
         BASE_URL ip ''-0'' = Inr ''https://deepwiki.com/grass-dev-pa/aelf-030'' \<and>
         BASE_URL ip ''0'' = Inr ''https://deepwiki.com/AElfProject/AElf'') \<and>
   (\<forall>ip. decimal_to_ascii ip [CHR 0xD9, CHR 0xA0] = ''0'' \<longrightarrow>
         BASE_URL ip [CHR 0xD9, CHR 0xA0] = Inr ''https://deepwiki.com/grass-dev-pa/aelf-030'')"
proof -
  have fmt: "format_03d 30 = ''030''" by code_simp
  have general: "BASE_URL ip s = Inr ''https://deepwiki.com/grass-dev-pa/aelf-030''"
    if "s \<noteq> ''0''" and "py_int ip (PyStr s) = Inr 0" for ip s
    using that by (simp add: BASE_URL_def get_cyclic_index_def MAX_REPO_def REPO_NAME_def fmt)
  have a: "BASE_URL ip ''00'' = Inr ''https://deepwiki.com/grass-dev-pa/aelf-030''" for ip
    by code_simp
  have b: "BASE_URL ip ''+0'' = Inr ''https://deepwiki.com/grass-dev-pa/aelf-030''" for ip
    by code_simp
  have c: "BASE_URL ip ''-0'' = Inr ''https://deepwiki.com/grass-dev-pa/aelf-030''" for ip
    by code_simp
  have d: "BASE_URL ip ''0'' = Inr ''https://deepwiki.com/AElfProject/AElf''" for ip
    by code_simp
  have zero: "py_int_ascii l ''0'' = Inr 0" for l
    by code_simp
  have e: "BASE_URL ip [CHR 0xD9, CHR 0xA0] = Inr ''https://deepwiki.com/grass-dev-pa/aelf-030''"
    if "decimal_to_ascii ip [CHR 0xD9, CHR 0xA0] = ''0''" for ip
  proof -
    have "\<not> is_ascii [CHR 0xD9, CHR 0xA0]" by (simp add: is_ascii_def)
    with that have "py_int ip (PyStr [CHR 0xD9, CHR 0xA0]) = Inr 0"
      by (simp add: py_int_str_def zero)
    moreover have "[CHR 0xD9, CHR 0xA0] \<noteq> ''0''" by simp
    ultimately show ?thesis by (simp add: general)
  qed
  from general a b c d e show ?thesis by blast
qed

theorem BASE_URL_zero_by_string_equality_witness:
  "'' 0_0 '' \<noteq> ''0'' \<and> py_int default_interpreter (PyStr '' 0_0 '') = Inr 0 \<and>
   BASE_URL default_interpreter '' 0_0 '' = Inr ''https://deepwiki.com/grass-dev-pa/aelf-030'' \<and>
   decimal_to_ascii \<lparr>int_max_str_digits = 4300, decimal_to_ascii = (\<lambda>s. ''0'')\<rparr>
     [CHR 0xD9, CHR 0xA0] = ''0'' \<and>
   BASE_URL \<lparr>int_max_str_digits = 4300, decimal_to_ascii = (\<lambda>s. ''0'')\<rparr> [CHR 0xD9, CHR 0xA0] =
     Inr ''https://deepwiki.com/grass-dev-pa/aelf-030''"
proof -
  have a: "'' 0_0 '' \<noteq> ''0''" by simp
  have b: "py_int default_interpreter (PyStr '' 0_0 '') = Inr 0" by code_simp
  have c: "decimal_to_ascii \<lparr>int_max_str_digits = 4300, decimal_to_ascii = (\<lambda>s. ''0'')\<rparr>
     [CHR 0xD9, CHR 0xA0] = ''0''" by simp
  from a b c BASE_URL_zero_by_string_equality show ?thesis by blast
qed

section \<open>Properties of the list and of the builders\<close>

subsection \<open>Auxiliary facts\<close>

lemma brace_free_append: "brace_free (a @ b) \<longleftrightarrow> brace_free a \<and> brace_free b"
  by (auto simp: brace_free_def)

lemma brace_free_join:
  "brace_free sep \<Longrightarrow> list_all brace_free xs \<Longrightarrow> brace_free (py_join sep xs)"
  by (induction sep xs rule: py_join.induct) (simp_all add: brace_free_append, simp add: brace_free_def)

lemma control_char_bits:
  "(of_char c :: nat) < 32 \<longleftrightarrow> \<not> (digit5 c \<or> digit6 c \<or> digit7 c)"
proof (cases c)
  case (Char b0 b1 b2 b3 b4 b5 b6 b7)
  let ?low = "of_bool b0 + 2 * (of_bool b1 + 2 * (of_bool b2 + 2 * (of_bool b3 + 2 * of_bool b4)))"
  have low: "?low < (32::nat)"
    by (cases b0; cases b1; cases b2; cases b3; cases b4) simp_all
  have "(of_char c :: nat) = ?low + 32 * (of_bool b5 + 2 * (of_bool b6 + 2 * of_bool b7))"
    unfolding Char by (simp add: of_char_def horner_sum_simps algebra_simps)
  with low show ?thesis unfolding Char
    by (cases b5; cases b6; cases b7) simp_all
qed

lemma py_repr_char_plain:
  assumes "plain_char c"
  shows "py_repr_char (CHR 0x27) c = [c]"
proof -
  from assms have ne: "c \<noteq> CHR 0x27" "c \<noteq> CHR 0x5C" "c \<noteq> CHR 0x7F"
    and bits: "digit5 c \<or> digit6 c \<or> digit7 c"
    by (simp_all add: plain_char_def)
  from bits have nc: "\<not> (of_char c :: nat) < 32"
    by (simp add: control_char_bits)
  have "c \<noteq> CHR 0x09" "c \<noteq> CHR 0x0A" "c \<noteq> CHR 0x0D"
    using bits by auto
  with ne nc show ?thesis
    by (simp add: py_repr_char_def)
qed

lemma py_repr_str_plain:
  assumes "list_all plain_char p"
  shows "py_repr_str p = [CHR 0x27] @ p @ [CHR 0x27]"
proof -
  from assms have noq: "CHR 0x27 \<notin> set p"
    by (auto simp: list_all_iff plain_char_def)
  from assms have "concat (map (py_repr_char (CHR 0x27)) p) = p"
    by (induction p) (simp_all add: py_repr_char_plain)
  with noq show ?thesis by (simp add: py_repr_str_def Let_def)
qed

lemma plain_brace_free: "list_all plain_char p \<Longrightarrow> brace_free p"
  by (auto simp: list_all_iff plain_char_def brace_free_def)

lemma quoted_brace_free: "list_all plain_char p \<Longrightarrow> brace_free (py_repr_str p)"
  by (simp add: py_repr_str_plain) (auto simp: list_all_iff plain_char_def brace_free_def)

lemma scope_files_drop: "drop 158 scope_files = take 158 scope_files"
  by (simp add: scope_files_def)

lemma scope_files_halves: "scope_files = take 158 scope_files @ take 158 scope_files"
proof -
  have "scope_files = take 158 scope_files @ drop 158 scope_files"
    by (rule append_take_drop_id [symmetric])
  then show ?thesis
    by (simp only: scope_files_drop)
qed

lemma scope_half_plain: "list_all (list_all plain_char) (take 158 scope_files)"
  by (simp add: scope_files_def plain_char_def)

lemma scope_files_plain: "list_all (list_all plain_char) scope_files"
proof -
  have "list_all (list_all plain_char) (take 158 scope_files @ take 158 scope_files)"
    using scope_half_plain by (simp only: list_all_append simp_thms)
  then show ?thesis
    by (subst scope_files_halves)
qed

lemma scope_files_repr:
  "map py_repr_str scope_files = map (\<lambda>p. [CHR 0x27] @ p @ [CHR 0x27]) scope_files"
  using scope_files_plain by (auto simp: list_all_iff py_repr_str_plain)

lemma scope_files_rendering_brace_free: "brace_free (py_str_list scope_files)"
proof -
  have "list_all brace_free (map py_repr_str scope_files)"
    using scope_files_plain by (auto simp: list_all_iff quoted_brace_free)
  moreover have "brace_free '', ''" by (simp add: brace_free_def)
  ultimately have "brace_free (py_join '', '' (map py_repr_str scope_files))"
    by (simp add: brace_free_join)
  moreover have "brace_free ''[''" and "brace_free '']''"
    by (simp_all add: brace_free_def)
  ultimately show ?thesis
    unfolding py_str_list_def by (simp only: brace_free_append simp_thms)
qed

lemma load_module_scope_files: "load_module ip env = Inr g \<Longrightarrow> g_scope_files g = scope_files"
  by (auto simp: load_module_def Let_def split: sum.splits)

lemma load_module_unset:
  "load_module ip None = Inr \<lparr>g_run_number = ''0'',
     g_BASE_URL = ''https://deepwiki.com/AElfProject/AElf'', g_scope_files = scope_files\<rparr>"
  by (simp add: load_module_def run_number_def BASE_URL_def SOURCE_REPO_def)

lemma question_generator_texts_brace_free:
  "brace_free question_generator_text0" "brace_free question_generator_text1"
  "brace_free question_generator_text2" "brace_free question_generator_text3"
  "brace_free question_generator_text4" "brace_free question_generator_text5"
  "brace_free question_generator_text6"
  by (simp_all add: brace_free_def question_generator_text0_def question_generator_text1_def
      question_generator_text2_def question_generator_text3_def question_generator_text4_def
      question_generator_text5_def question_generator_text6_def)

lemma validation_format_texts_brace_free:
  "brace_free validation_format_text0" "brace_free validation_format_text1"
  "brace_free validation_format_text2"
  by (simp_all add: brace_free_def validation_format_text0_def validation_format_text1_def
      validation_format_text2_def)

lemma audit_format_texts_brace_free:
  "brace_free audit_format_text0" "brace_free audit_format_text1" "brace_free audit_format_text2"
  by (simp_all add: brace_free_def audit_format_text0_def audit_format_text1_def
      audit_format_text2_def)

lemma scan_format_texts_brace_free:
  "brace_free scan_format_text0" "brace_free scan_format_text1"
  by (simp_all add: brace_free_def scan_format_text0_def scan_format_text1_def)

lemma has_pair_Cons: "has_pair a b ys \<Longrightarrow> has_pair a b (x # ys)"
  by (cases ys) simp_all

lemma has_pair_append_right: "has_pair a b ys \<Longrightarrow> has_pair a b (xs @ ys)"
  by (induction xs) (simp_all add: has_pair_Cons)

lemma has_pair_append_left: "has_pair a b xs \<Longrightarrow> has_pair a b (xs @ ys)"
  by (induction a b xs rule: has_pair.induct) auto

lemma has_pair_sublist:
  assumes "sublist p q" and "has_pair a b p"
  shows "has_pair a b q"
proof -
  from assms(1) obtain pre post where "q = pre @ p @ post"
    unfolding sublist_def by blast
  with assms(2) show ?thesis
    by (simp add: has_pair_append_left has_pair_append_right)
qed

lemma scope_half_extension: "list_all (has_pair (CHR ''.'') (CHR ''c'')) (take 158 scope_files)"
  by (simp add: scope_files_def)

lemma scope_files_extension: "list_all (has_pair (CHR ''.'') (CHR ''c'')) scope_files"
proof -
  have "list_all (has_pair (CHR ''.'') (CHR ''c'')) (take 158 scope_files @ take 158 scope_files)"
    using scope_half_extension by (simp only: list_all_append simp_thms)
  then show ?thesis
    by (subst scope_files_halves)
qed

lemma question_generator_no_extension:
  "\<not> has_pair (CHR ''.'') (CHR ''c'') (question_generator [])"
  by (simp add: question_generator_def question_generator_text0_def
        question_generator_text1_def question_generator_text2_def question_generator_text3_def
        question_generator_text4_def question_generator_text5_def question_generator_text6_def)

lemma suffix_concat_last: "ls \<noteq> [] \<Longrightarrow> last ls = s \<Longrightarrow> suffix s (concat ls)"
proof (induction ls)
  case Nil
  then show ?case by simp
next
  case (Cons l ls)
  show ?case
  proof (cases "ls = []")
    case True
    with Cons.prems show ?thesis by simp
  next
    case False
    with Cons have "suffix s (concat ls)" by simp
    then show ?thesis by (simp add: suffix_appendI)
  qed
qed

subsection \<open>The claims about the list and the builders\<close>

text \<open>
  C5, as the specification states it: for every input, the output of
  \<open>question_generator\<close> renders every entry of \<open>scope_files\<close>. It does not: its f-string
  has no field for the list. For the empty input the output does not even contain the
  letter \<open>W\<close>, so the entry \<open>\<dots>/ProposerWhiteListExtensions.cs\<close> of the list is not part
  of it.
\<close>

theorem question_generator_omits_scope_files:
  "''contract/AElf.Contracts.Referendum/ProposerWhiteListExtensions.cs'' \<in> set scope_files \<and>
   \<not> sublist ''contract/AElf.Contracts.Referendum/ProposerWhiteListExtensions.cs''
         (question_generator '''')"
proof
  show "''contract/AElf.Contracts.Referendum/ProposerWhiteListExtensions.cs'' \<in> set scope_files"
    by (simp add: scope_files_def)
next
  have no_W: "CHR ''W'' \<notin> set (question_generator '''')"
    by (simp add: question_generator_def question_generator_text0_def
        question_generator_text1_def question_generator_text2_def question_generator_text3_def
        question_generator_text4_def question_generator_text5_def question_generator_text6_def)
  have W: "CHR ''W'' \<in> set ''contract/AElf.Contracts.Referendum/ProposerWhiteListExtensions.cs''"
    by simp
  show "\<not> sublist ''contract/AElf.Contracts.Referendum/ProposerWhiteListExtensions.cs''
         (question_generator '''')"
  proof
    assume "sublist ''contract/AElf.Contracts.Referendum/ProposerWhiteListExtensions.cs''
         (question_generator '''')"
    then have "set ''contract/AElf.Contracts.Referendum/ProposerWhiteListExtensions.cs''
        \<subseteq> set (question_generator '''')"
      by (rule set_mono_sublist)
    with W have "CHR ''W'' \<in> set (question_generator '''')" by (rule subsetD [rotated])
    with no_W show False by contradiction
  qed
qed

text \<open>
  C5, amended. Once the module is loaded, the output of \<open>validation_format\<close> contains,
  for every report, the rendering of the whole list: an opening bracket, every entry of
  \<open>scope_files\<close> between single quotes, in the order of the list and with its repetitions,
  separated by a comma and a space, and a closing bracket. The output of
  \<open>question_generator\<close> has only its argument and its fixed text: for the empty argument
  it contains no entry of the list.
\<close>

theorem validation_format_embeds_scope_files:
  assumes "load_module ip env = Inr g"
  shows "(\<exists>pre post. validation_format g report =
            pre @ ''['' @ py_join '', '' (map (\<lambda>p. [CHR 0x27] @ p @ [CHR 0x27]) scope_files)
                @ '']'' @ post) \<and>
         (\<forall>p \<in> set scope_files. \<not> sublist p (question_generator []))"
proof
  from assms have "g_scope_files g = scope_files"
    by (rule load_module_scope_files)
  then have "validation_format g report =
      (validation_format_text0 @ report @ validation_format_text1) @ ''['' @
      py_join '', '' (map (\<lambda>p. [CHR 0x27] @ p @ [CHR 0x27]) scope_files) @ '']'' @
      validation_format_text2"
    by (simp add: validation_format_def py_str_list_def scope_files_repr)
  then show "\<exists>pre post. validation_format g report =
            pre @ ''['' @ py_join '', '' (map (\<lambda>p. [CHR 0x27] @ p @ [CHR 0x27]) scope_files)
                @ '']'' @ post"
    by blast
next
  show "\<forall>p \<in> set scope_files. \<not> sublist p (question_generator [])"
  proof
    fix p
    assume "p \<in> set scope_files"
    with scope_files_extension have ext: "has_pair (CHR ''.'') (CHR ''c'') p"
      by (simp add: list_all_iff)
    show "\<not> sublist p (question_generator [])"
    proof
      assume "sublist p (question_generator [])"
      from this ext have "has_pair (CHR ''.'') (CHR ''c'') (question_generator [])"
        by (rule has_pair_sublist)
      with question_generator_no_extension show False by contradiction
    qed
  qed
qed

theorem validation_format_embeds_scope_files_witness:
  "\<exists>g. load_module default_interpreter None = Inr g \<and>
     (\<exists>pre post. validation_format g ''report'' =
           pre @ ''['' @ py_join '', '' (map (\<lambda>p. [CHR 0x27] @ p @ [CHR 0x27]) scope_files)
               @ '']'' @ post) \<and>
     ''contract/AElf.Contracts.Association/Association.cs'' \<in> set scope_files \<and>
     \<not> sublist ''contract/AElf.Contracts.Association/Association.cs'' (question_generator [])"
proof -
  have m: "''contract/AElf.Contracts.Association/Association.cs'' \<in> set scope_files"
    by (simp add: scope_files_def)
  from m load_module_unset [of default_interpreter]
    validation_format_embeds_scope_files [OF load_module_unset [of default_interpreter], of "''report''"]
  show ?thesis by blast
qed

text \<open>
  C6. The list has 316 entries and is one sequence of 158 paths written twice, so every
  path in it occurs at least twice.
\<close>

theorem scope_files_listed_twice:
  "length scope_files = 316 \<and>
   scope_files = take 158 scope_files @ take 158 scope_files \<and>
   (\<forall>p \<in> set scope_files. 2 \<le> count_list scope_files p)"
proof (intro conjI ballI)
  show "length scope_files = 316"
    by (simp add: scope_files_def)
next
  show "scope_files = take 158 scope_files @ take 158 scope_files"
    by (rule scope_files_halves)
next
  fix p
  let ?h = "take 158 scope_files"
  assume "p \<in> set scope_files"
  then have "p \<in> set (?h @ ?h)"
    by (subst (asm) scope_files_halves)
  then have "p \<in> set ?h" by simp
  then have "count_list ?h p \<noteq> 0"
    by (simp add: count_list_0_iff)
  then have "2 \<le> count_list (?h @ ?h) p" by simp
  then show "2 \<le> count_list scope_files p"
    by (subst scope_files_halves)
qed

theorem scope_files_listed_twice_witness:
  "''contract/AElf.Contracts.Vote/VoteExtensions.cs'' \<in> set scope_files \<and>
   2 \<le> count_list scope_files ''contract/AElf.Contracts.Vote/VoteExtensions.cs''"
proof -
  have m: "''contract/AElf.Contracts.Vote/VoteExtensions.cs'' \<in> set scope_files"
    by (simp add: scope_files_def)
  with scope_files_listed_twice
  have "2 \<le> count_list scope_files ''contract/AElf.Contracts.Vote/VoteExtensions.cs''"
    by blast
  with m show ?thesis by simp
qed

text \<open>
  C8. Each builder wraps its argument in fixed text: there are texts without braces,
  the same for every argument, such that the output is these texts with the argument
  between them (six times for \<open>question_generator\<close>, once for \<open>validation_format\<close> and
  \<open>scan_format\<close>, twice for \<open>audit_format\<close>). So the argument is part of the output, and
  every replacement field of the four f-strings has been replaced: whatever brace the
  output has comes from the argument.
\<close>

theorem builders_substitute_input:
  assumes "load_module ip env = Inr g"
  shows "(\<exists>t0 t1 t2 t3 t4 t5 t6.
            brace_free (t0 @ t1 @ t2 @ t3 @ t4 @ t5 @ t6) \<and>
            (\<forall>x. question_generator x =
                   t0 @ x @ t1 @ x @ t2 @ x @ t3 @ x @ t4 @ x @ t5 @ x @ t6)) \<and>
         (\<exists>t0 t1. brace_free (t0 @ t1) \<and> (\<forall>x. validation_format g x = t0 @ x @ t1)) \<and>
         (\<exists>t0 t1 t2. brace_free (t0 @ t1 @ t2) \<and> (\<forall>x. audit_format x = t0 @ x @ t1 @ x @ t2)) \<and>
         (\<exists>t0 t1. brace_free (t0 @ t1) \<and> (\<forall>x. scan_format x = t0 @ x @ t1))"
proof (intro conjI)
  have "brace_free (question_generator_text0 @ question_generator_text1 @
      question_generator_text2 @ question_generator_text3 @ question_generator_text4 @
      question_generator_text5 @ question_generator_text6)"
    by (simp only: brace_free_append question_generator_texts_brace_free simp_thms)
  moreover have "\<forall>x. question_generator x =
      question_generator_text0 @ x @ question_generator_text1 @ x @
      question_generator_text2 @ x @ question_generator_text3 @ x @
      question_generator_text4 @ x @ question_generator_text5 @ x @ question_generator_text6"
    by (simp only: question_generator_def simp_thms)
  ultimately show "\<exists>t0 t1 t2 t3 t4 t5 t6.
            brace_free (t0 @ t1 @ t2 @ t3 @ t4 @ t5 @ t6) \<and>
            (\<forall>x. question_generator x =
                   t0 @ x @ t1 @ x @ t2 @ x @ t3 @ x @ t4 @ x @ t5 @ x @ t6)"
    by blast
next
  from assms have sc: "g_scope_files g = scope_files"
    by (rule load_module_scope_files)
  let ?t1 = "validation_format_text1 @ py_str_list scope_files @ validation_format_text2"
  have "brace_free (validation_format_text0 @ ?t1)"
    by (simp only: brace_free_append validation_format_texts_brace_free
        scope_files_rendering_brace_free simp_thms)
  moreover have "\<forall>x. validation_format g x = validation_format_text0 @ x @ ?t1"
    by (simp only: validation_format_def sc simp_thms)
  ultimately show "\<exists>t0 t1. brace_free (t0 @ t1) \<and> (\<forall>x. validation_format g x = t0 @ x @ t1)"
    by blast
next
  have "brace_free (audit_format_text0 @ audit_format_text1 @ audit_format_text2)"
    by (simp only: brace_free_append audit_format_texts_brace_free simp_thms)
  moreover have "\<forall>x. audit_format x =
      audit_format_text0 @ x @ audit_format_text1 @ x @ audit_format_text2"
    by (simp only: audit_format_def simp_thms)
  ultimately show "\<exists>t0 t1 t2. brace_free (t0 @ t1 @ t2) \<and>
      (\<forall>x. audit_format x = t0 @ x @ t1 @ x @ t2)"
    by blast
next
  have "brace_free (scan_format_text0 @ scan_format_text1)"
    by (simp only: brace_free_append scan_format_texts_brace_free simp_thms)
  moreover have "\<forall>x. scan_format x = scan_format_text0 @ x @ scan_format_text1"
    by (simp only: scan_format_def simp_thms)
  ultimately show "\<exists>t0 t1. brace_free (t0 @ t1) \<and> (\<forall>x. scan_format x = t0 @ x @ t1)"
    by blast
qed

theorem builders_substitute_input_witness:
  "\<exists>g. load_module default_interpreter None = Inr g \<and>
     (\<exists>t0 t1. brace_free (t0 @ t1) \<and> validation_format g ''{report}'' = t0 @ ''{report}'' @ t1) \<and>
     (\<exists>t0 t1. brace_free (t0 @ t1) \<and> scan_format ''{report}'' = t0 @ ''{report}'' @ t1)"
  using load_module_unset [of default_interpreter]
    builders_substitute_input [OF load_module_unset [of default_interpreter]]
  by blast

text \<open>
  C9. For every question, the output of \<open>audit_format\<close> is the fixed template, that is
  the three constant pieces of the f-string in their order, with the question in exactly
  two places: between the first and the second piece, right after the heading
  \<open>## Security Question to Investigate:\<close>, and between the second and the third, right
  after \<open>Begin investigation of:\<close>. The first piece is the title and that heading, the
  second begins with the section \<open>## Codebase Context\<close>, the third is two line feeds.
  For the empty question the output is the template alone, and in general it is 5524
  bytes longer than twice the question.
\<close>

theorem audit_format_two_places:
  "(\<forall>q. audit_format q =
       audit_format_text0 @ q @ audit_format_text1 @ q @ audit_format_text2) \<and>
   audit_format [] = audit_format_text0 @ audit_format_text1 @ audit_format_text2 \<and>
   audit_format_text0 =
     ''# AELF SMART CONTRACT SECURITY AUDIT PROMPT\<newline>\<newline>'' @
     ''## Security Question to Investigate:\<newline>'' \<and>
   prefix ''\<newline>\<newline>## Codebase Context\<newline>'' audit_format_text1 \<and>
   suffix ''Begin investigation of: '' audit_format_text1 \<and>
   audit_format_text2 = ''\<newline>\<newline>'' \<and>
   length audit_format_text0 = 82 \<and> length audit_format_text1 = 5440 \<and>
   (\<forall>q. length (audit_format q) = 2 * length q + 5524)"
proof -
  have whole: "audit_format q =
       audit_format_text0 @ q @ audit_format_text1 @ q @ audit_format_text2" for q
    by (simp only: audit_format_def)
  have t0: "audit_format_text0 =
     ''# AELF SMART CONTRACT SECURITY AUDIT PROMPT\<newline>\<newline>'' @
     ''## Security Question to Investigate:\<newline>''"
    by (simp add: audit_format_text0_def)
  have pre: "prefix ''\<newline>\<newline>## Codebase Context\<newline>'' audit_format_text1"
    by (simp add: audit_format_text1_def)
  have suf: "suffix ''Begin investigation of: '' audit_format_text1"
    unfolding audit_format_text1_def by (rule suffix_concat_last) simp_all
  have t2: "audit_format_text2 = ''\<newline>\<newline>''"
    by (simp add: audit_format_text2_def)
  have l0: "length audit_format_text0 = 82"
    by (simp add: audit_format_text0_def)
  have l1: "length audit_format_text1 = 5440"
    by (simp add: audit_format_text1_def)
  have l2: "length audit_format_text2 = 2"
    by (simp add: audit_format_text2_def)
  have len: "length (audit_format q) = 2 * length q + 5524" for q
    by (simp add: audit_format_def l0 l1 l2)
  have empty: "audit_format [] = audit_format_text0 @ audit_format_text1 @ audit_format_text2"
    by (simp add: audit_format_def)
  from whole empty t0 pre suf t2 l0 l1 len show ?thesis
    by (intro conjI allI)
qed

end
